theory Spec2Isabelle
  imports Complex_Main "HOL-Library.Word" "HOL-Library.Sublist"
begin

section \<open>Values the handlers exchange\<close>

text \<open>
  The backend is one Flask module, \<^verbatim>\<open>backend/app.py\<close>. Its handlers read the parsed JSON
  body of a request and answer with \<^verbatim>\<open>jsonify(...)\<close> and a status code. A parsed body is any
  JSON value, so the model keeps all six kinds of value: Python's \<^verbatim>\<open>None\<close>, \<^verbatim>\<open>bool\<close>, number,
  \<^verbatim>\<open>str\<close>, \<^verbatim>\<open>list\<close> and \<^verbatim>\<open>dict\<close>. A \<^verbatim>\<open>dict\<close> is an association list whose keys are distinct,
  in insertion order.

  A floating-point number is the real it denotes: the handler copies confidences and
  compares them with \<^verbatim>\<open>>\<close> and \<^verbatim>\<open>>=\<close>, and the order of finite floats is the order of
  the reals they denote. Where the code computes in floating point (the division of a pixel
  by 255, the literal \<^verbatim>\<open>0.6\<close>) the model takes the rounded value. Not-a-number outputs of a
  classifier are outside this model: a prediction is a vector of probabilities.
\<close>

type_synonym bytes = "8 word list"

datatype json =
    JNull
  | JBool bool
  | JNum real
  | JStr string
  | JArr "json list"
  | JObj "(string \<times> json) list"

text \<open>The exceptions of Python that the handlers can meet; every one derives from \<^verbatim>\<open>Exception\<close>.\<close>

datatype py_exc =
    BinasciiError
  | ValueError
  | TypeError
  | KeyError
  | IndexError
  | AttributeError
  | HTTPException
  | OSError

text \<open>A Flask response: the JSON body and the HTTP status (\<^verbatim>\<open>jsonify(x)\<close> alone is status 200).\<close>

datatype response = Response (body: json) (status: nat)

subsection \<open>Python's operators on JSON values\<close>

text \<open>\<^verbatim>\<open>not data\<close>: the truth value of a Python object.\<close>

fun truthy :: "json \<Rightarrow> bool" where
  "truthy JNull = False"
| "truthy (JBool b) = b"
| "truthy (JNum x) = (x \<noteq> 0)"
| "truthy (JStr s) = (s \<noteq> [])"
| "truthy (JArr xs) = (xs \<noteq> [])"
| "truthy (JObj kvs) = (kvs \<noteq> [])"

text \<open>\<^verbatim>\<open>sub in s\<close> on two strings: \<^verbatim>\<open>sub\<close> occurs in \<^verbatim>\<open>s\<close> as a contiguous run.\<close>

fun str_contains :: "string \<Rightarrow> string \<Rightarrow> bool" where
  "str_contains sub [] = (sub = [])"
| "str_contains sub (c # cs) = (prefix sub (c # cs) \<or> str_contains sub cs)"

text \<open>
  \<^verbatim>\<open>key in data\<close> for a string \<^verbatim>\<open>key\<close>: key membership on a dict, element membership on a
  list, substring test on a string, and \<^verbatim>\<open>TypeError\<close> on \<^verbatim>\<open>None\<close>, booleans and numbers
  (they are not iterable).
\<close>

fun py_in :: "string \<Rightarrow> json \<Rightarrow> py_exc + bool" where
  "py_in key (JObj kvs) = Inr (key \<in> set (map fst kvs))"
| "py_in key (JArr xs) = Inr (JStr key \<in> set xs)"
| "py_in key (JStr s) = Inr (str_contains key s)"
| "py_in key JNull = Inl TypeError"
| "py_in key (JBool b) = Inl TypeError"
| "py_in key (JNum x) = Inl TypeError"

text \<open>
  \<^verbatim>\<open>data[key]\<close> for a string \<^verbatim>\<open>key\<close>: the value on a dict (\<^verbatim>\<open>KeyError\<close> when absent), and
  \<^verbatim>\<open>TypeError\<close> on everything else (lists and strings take integer indices only).
\<close>

fun py_getitem :: "json \<Rightarrow> string \<Rightarrow> py_exc + json" where
  "py_getitem (JObj kvs) key = (case map_of kvs key of None \<Rightarrow> Inl KeyError | Some v \<Rightarrow> Inr v)"
| "py_getitem (JArr xs) key = Inl TypeError"
| "py_getitem (JStr s) key = Inl TypeError"
| "py_getitem JNull key = Inl TypeError"
| "py_getitem (JBool b) key = Inl TypeError"
| "py_getitem (JNum x) key = Inl TypeError"

text \<open>
  \<^verbatim>\<open>s.split(sep)\<close>: cut \<^verbatim>\<open>s\<close> at every occurrence of \<^verbatim>\<open>sep\<close>, found from the left and not
  overlapping. \<^verbatim>\<open>cur\<close> is the piece being read. An empty separator raises \<^verbatim>\<open>ValueError\<close>.
\<close>

function py_split_from :: "string \<Rightarrow> string \<Rightarrow> string \<Rightarrow> string list" where
  "py_split_from sep cur s =
     (if s = [] then [cur]
      else if sep \<noteq> [] \<and> prefix sep s then cur # py_split_from sep [] (drop (length sep) s)
      else py_split_from sep (cur @ [hd s]) (tl s))"
  by pat_completeness auto
termination
  by (relation "measure (\<lambda>(sep, cur, s). length s)") auto

definition py_split :: "string \<Rightarrow> string \<Rightarrow> py_exc + string list" where
  "py_split s sep = (if sep = [] then Inl ValueError else Inr (py_split_from sep [] s))"

declare py_split_from.simps [simp del]

section \<open>Arrays, images and classifiers\<close>

text \<open>
  A NumPy array is a nest of lists around scalars. \<open>has_shape [n\<^sub>1, \<dots>, n\<^sub>k] a\<close> says that
  \<open>a\<close> is a regular array with exactly these \<open>k\<close> axes.
\<close>

datatype 'a nd = Scalar 'a | Dim "'a nd list"


text \<open>\<^verbatim>\<open>np.expand_dims(a, axis=-1)\<close> wraps every scalar; \<^verbatim>\<open>np.expand_dims(a, axis=0)\<close> wraps the array.\<close>

fun np_expand_dims_last :: "'a nd \<Rightarrow> 'a nd" where
  "np_expand_dims_last (Scalar x) = Dim [Scalar x]"
| "np_expand_dims_last (Dim xs) = Dim (map np_expand_dims_last xs)"

definition np_expand_dims_first :: "'a nd \<Rightarrow> 'a nd" where
  "np_expand_dims_first a = Dim [a]"

text \<open>
  Rounding to single precision, for \<open>0 \<le> x < 2\<^sup>2\<^sup>4\<close>: \<open>x\<close> is doubled until it reaches
  \<open>2\<^sup>2\<^sup>3\<close>, at most 149 times (the exponent of the smallest subnormal), rounded to the
  nearest integer with ties to the even one, and scaled back.
\<close>

fun scale_up :: "nat \<Rightarrow> real \<Rightarrow> nat \<Rightarrow> real \<times> nat" where
  "scale_up 0 x k = (x, k)"
| "scale_up (Suc n) x k = (if x < 2 ^ 23 then scale_up n (2 * x) (Suc k) else (x, k))"

definition round_half_even :: "real \<Rightarrow> int" where
  "round_half_even y =
     (let m = \<lfloor>y\<rfloor>; r = y - of_int m
      in if r < 1 / 2 then m else if 1 / 2 < r then m + 1 else if even m then m else m + 1)"

definition float32 :: "real \<Rightarrow> real" where
  "float32 x =
     (if x \<le> 0 then 0
      else case scale_up 149 x 0 of (y, k) \<Rightarrow> of_int (round_half_even y) / 2 ^ k)"

text \<open>
  \<^verbatim>\<open>a.astype('float32') / 255.0\<close> on an array of bytes: a byte is exact in single precision,
  and the quotient is rounded to single precision.
\<close>

definition normalize :: "8 word nd \<Rightarrow> real nd" where
  "normalize a = map_nd (\<lambda>p. float32 (real (unat p) / 255)) a"

text \<open>
  The libraries the handler calls are parameters: the base64 decoder (\<^verbatim>\<open>Inl\<close> the exception
  it raises) and Pillow's \<^verbatim>\<open>Image.open\<close>, \<^verbatim>\<open>resize\<close>, \<^verbatim>\<open>convert\<close> and NumPy's \<^verbatim>\<open>np.array\<close> on an
  image (\<^verbatim>\<open>None\<close> when the call raises). \<open>'img\<close> is Pillow's image object.
\<close>

record 'img env =
  b64decode :: "string \<Rightarrow> py_exc + bytes"
  image_open :: "bytes \<Rightarrow> 'img option"
  resize :: "'img \<Rightarrow> nat \<times> nat \<Rightarrow> 'img option"
  convert :: "'img \<Rightarrow> string \<Rightarrow> 'img option"
  np_array :: "'img \<Rightarrow> 8 word nd"

text \<open>
  \<^verbatim>\<open>preprocess_image_for_keras\<close>, lines 65 to 82. Any exception inside is caught and the
  function returns \<^verbatim>\<open>None\<close>; an unknown \<^verbatim>\<open>model_type\<close> raises \<^verbatim>\<open>ValueError\<close> inside the same
  \<^verbatim>\<open>try\<close>.
\<close>

definition preprocess_image_for_keras :: "'img env \<Rightarrow> bytes \<Rightarrow> string \<Rightarrow> real nd option" where
  "preprocess_image_for_keras lib image_bytes model_type =
     (case image_open lib image_bytes of
        None \<Rightarrow> None
      | Some img \<Rightarrow>
          (case (if model_type = ''asl'' then
                   (case resize lib img (28, 28) of
                      None \<Rightarrow> None
                    | Some r \<Rightarrow>
                        (case convert lib r ''L'' of
                           None \<Rightarrow> None
                         | Some g \<Rightarrow> Some (np_expand_dims_last (np_array lib g))))
                 else if model_type \<in> set [''digit'', ''isl''] then
                   (case resize lib img (32, 32) of
                      None \<Rightarrow> None
                    | Some r \<Rightarrow>
                        (case convert lib r ''RGB'' of
                           None \<Rightarrow> None
                         | Some c \<Rightarrow> Some (np_array lib c)))
                 else None)
           of
             None \<Rightarrow> None
           | Some img_array \<Rightarrow> Some (np_expand_dims_first (normalize img_array))))"

text \<open>
  A loaded Keras model is its \<^verbatim>\<open>predict\<close>: from the input batch to the batch of output
  vectors, \<^verbatim>\<open>None\<close> when it raises.
\<close>

type_synonym classifier = "real nd \<Rightarrow> real list list option"

text \<open>\<^verbatim>\<open>np.max\<close> raises \<^verbatim>\<open>ValueError\<close> on an empty vector; \<^verbatim>\<open>np.argmax\<close> is the first index of the maximum.\<close>

definition np_max :: "real list \<Rightarrow> real option" where
  "np_max v = (case v of [] \<Rightarrow> None | x # xs \<Rightarrow> Some (fold max xs x))"

fun argmax_from :: "real list \<Rightarrow> nat \<Rightarrow> real \<Rightarrow> nat \<Rightarrow> nat" where
  "argmax_from [] i best best_i = best_i"
| "argmax_from (x # xs) i best best_i =
     (if x > best then argmax_from xs (Suc i) x i else argmax_from xs (Suc i) best best_i)"

definition np_argmax :: "real list \<Rightarrow> nat option" where
  "np_argmax v = (case v of [] \<Rightarrow> None | x # xs \<Rightarrow> Some (argmax_from xs 1 x 0))"

subsection \<open>The registry of models and the label tables\<close>

definition MODEL_DIR :: string where
  "MODEL_DIR = ''models''"

definition path_join :: "string \<Rightarrow> string \<Rightarrow> string" where
  "path_join d f = d @ ''/'' @ f"

definition MODEL_PATHS :: "(string \<times> string) list" where
  "MODEL_PATHS =
     [(''digit'', path_join MODEL_DIR ''digitSignLanguage.h5''),
      (''asl'', path_join MODEL_DIR ''americanSignLanguage.h5''),
      (''isl'', path_join MODEL_DIR ''indianSignLanguage.h5'')]"

text \<open>
  Line 39. The literal \<^verbatim>\<open>0.6\<close> is the double nearest to six tenths, a little below it.
\<close>

definition KERAS_CONFIDENCE_THRESHOLD :: real where
  "KERAS_CONFIDENCE_THRESHOLD = 5404319552844595 / 9007199254740992"

text \<open>
  Lines 41 to 52: every name of \<^verbatim>\<open>MODEL_PATHS\<close> gets an entry, in that order; the entry is
  \<^verbatim>\<open>None\<close> when the file is missing or loading raises.
\<close>

record keras =
  path_exists :: "string \<Rightarrow> bool"
  load_model :: "string \<Rightarrow> classifier option"

definition load_models :: "keras \<Rightarrow> (string \<times> classifier option) list" where
  "load_models k =
     map (\<lambda>(name, path). (name, if path_exists k path then load_model k path else None))
       MODEL_PATHS"

text \<open>
  Lines 55 to 57. Every label is a string of one character, so each table is written as the
  string of its characters, cut into one-character strings: \<open>DIGIT_LABELS\<close> is
  \<open>[''0'', ''1'', \<dots>, ''9'']\<close>, \<open>ASL_LABELS\<close> is the alphabet without J and Z, \<open>ISL_LABELS\<close>
  the whole alphabet.
\<close>

definition labels_of :: "string \<Rightarrow> string list" where
  "labels_of cs = map (\<lambda>c. [c]) cs"

definition DIGIT_LABELS :: "string list" where
  "DIGIT_LABELS = labels_of ''0123456789''"

definition ASL_LABELS :: "string list" where
  "ASL_LABELS = labels_of ''ABCDEFGHIKLMNOPQRSTUVWXY''"

definition ISL_LABELS :: "string list" where
  "ISL_LABELS = labels_of ''ABCDEFGHIJKLMNOPQRSTUVWXYZ''"

definition LABEL_MAPS :: "(string \<times> string list) list" where
  "LABEL_MAPS = [(''digit'', DIGIT_LABELS), (''asl'', ASL_LABELS), (''isl'', ISL_LABELS)]"

text \<open>\<^verbatim>\<open>LABEL_MAPS.get(model_type, [])\<close>.\<close>

definition label_map_of :: "string \<Rightarrow> string list" where
  "label_map_of model_type = (case map_of LABEL_MAPS model_type of None \<Rightarrow> [] | Some ls \<Rightarrow> ls)"

section \<open>The endpoint \<^verbatim>\<open>/api/interpret-sign\<close>\<close>

text \<open>One entry of \<^verbatim>\<open>results\<close>: the dict with the keys \<^verbatim>\<open>model\<close>, \<^verbatim>\<open>label\<close> and \<^verbatim>\<open>confidence\<close>.\<close>

record prediction =
  model :: string
  label :: string
  confidence :: real

text \<open>
  Lines 92 to 94, on the value stored under \<^verbatim>\<open>'image'\<close>. On a string the marker
  \<^verbatim>\<open>'base64,'\<close> is searched, and when it occurs the second piece of the split is kept. On any
  other JSON value an exception is raised before any byte is decoded: by \<^verbatim>\<open>in\<close> on a
  non-iterable, by \<^verbatim>\<open>.split\<close> on a list or dict holding the marker, or else by
  \<^verbatim>\<open>base64.b64decode\<close>, which takes strings and bytes only.
\<close>

fun image_payload :: "json \<Rightarrow> py_exc + string" where
  "image_payload (JStr image_data) =
     (if str_contains ''base64,'' image_data then
        (case py_split image_data ''base64,'' of
           Inl e \<Rightarrow> Inl e
         | Inr parts \<Rightarrow> (case parts of _ # p # _ \<Rightarrow> Inr p | _ \<Rightarrow> Inl IndexError))
      else Inr image_data)"
| "image_payload (JArr xs) =
     (if JStr ''base64,'' \<in> set xs then Inl AttributeError else Inl TypeError)"
| "image_payload (JObj kvs) =
     (if ''base64,'' \<in> set (map fst kvs) then Inl AttributeError else Inl TypeError)"
| "image_payload JNull = Inl TypeError"
| "image_payload (JBool b) = Inl TypeError"
| "image_payload (JNum x) = Inl TypeError"

text \<open>
  The body of the loop of lines 100 to 130, for one item of \<^verbatim>\<open>models.items()\<close>: it returns
  \<^verbatim>\<open>results\<close>, with one more entry when the model gave a prediction inside its label table.
  \<^verbatim>\<open>predictions[0]\<close> on an empty batch and \<^verbatim>\<open>np.max\<close> on an empty vector raise inside the
  \<^verbatim>\<open>try\<close> of line 110.
\<close>

definition loop_body ::
  "'img env \<Rightarrow> bytes \<Rightarrow> prediction list \<Rightarrow> string \<times> classifier option \<Rightarrow> prediction list" where
  "loop_body lib image_bytes results item =
     (case item of (model_type, m) \<Rightarrow>
        (case m of
           None \<Rightarrow> results
         | Some predict \<Rightarrow>
             (case preprocess_image_for_keras lib image_bytes model_type of
                None \<Rightarrow> results
              | Some processed_image \<Rightarrow>
                  (case predict processed_image of
                     None \<Rightarrow> results
                   | Some predictions \<Rightarrow>
                       (case predictions of
                          [] \<Rightarrow> results
                        | p0 # _ \<Rightarrow>
                            (case (np_max p0, np_argmax p0) of
                               (Some conf, Some predicted_index) \<Rightarrow>
                                 (let label_map = label_map_of model_type in
                                  if predicted_index < length label_map then
                                    results @
                                      [\<lparr>model = model_type,
                                        label = label_map ! predicted_index,
                                        confidence = conf\<rparr>]
                                  else results)
                             | _ \<Rightarrow> results))))))"

definition run_models ::
  "'img env \<Rightarrow> bytes \<Rightarrow> (string \<times> classifier option) list \<Rightarrow> prediction list" where
  "run_models lib image_bytes models = foldl (loop_body lib image_bytes) [] models"

text \<open>
  Python's \<^verbatim>\<open>max(xs, key=f)\<close>: the running maximum is replaced only by an item whose key is
  strictly greater, so the first of several maximal items is returned; \<^verbatim>\<open>ValueError\<close> on an
  empty list.
\<close>

fun max_from :: "('a \<Rightarrow> real) \<Rightarrow> 'a \<Rightarrow> 'a list \<Rightarrow> 'a" where
  "max_from key best [] = best"
| "max_from key best (x # xs) = max_from key (if key x > key best then x else best) xs"

definition py_max :: "('a \<Rightarrow> real) \<Rightarrow> 'a list \<Rightarrow> py_exc + 'a" where
  "py_max key xs = (case xs of [] \<Rightarrow> Inl ValueError | x # rest \<Rightarrow> Inr (max_from key x rest))"

text \<open>Lines 132 to 154: the answer made from \<^verbatim>\<open>results\<close>.\<close>

definition low_confidence_text :: "string \<Rightarrow> string" where
  "low_confidence_text l = ''Unable to interpret sign (Low Confidence: '' @ l @ ''?)''"

definition answer :: "prediction list \<Rightarrow> py_exc + response" where
  "answer results =
     (if results = [] then
        Inr (Response
               (JObj [(''text'', JStr ''Unable to interpret sign (Prediction failed for all models)''),
                      (''confidence'', JNum 0),
                      (''model'', JStr ''none'')])
               500)
      else
        (case py_max confidence results of
           Inl e \<Rightarrow> Inl e
         | Inr best_result \<Rightarrow>
             if confidence best_result \<ge> KERAS_CONFIDENCE_THRESHOLD then
               Inr (Response
                      (JObj [(''text'', JStr (label best_result)),
                             (''confidence'', JNum (confidence best_result)),
                             (''model'', JStr (model best_result))])
                      200)
             else
               Inr (Response
                      (JObj [(''text'', JStr (low_confidence_text (label best_result))),
                             (''confidence'', JNum (confidence best_result)),
                             (''model'', JStr (model best_result))])
                      200)))"

text \<open>
  Lines 87 to 95 of \<^verbatim>\<open>interpret_sign\<close>: from the request to the bytes of the image.
  \<^verbatim>\<open>request_json\<close> is what \<^verbatim>\<open>request.json\<close> gives: the parsed body, or the exception Flask
  raises on a body it cannot parse. The result is the bytes (\<^verbatim>\<open>Inr\<close>), or the way the
  handler is left early: an exception, or the response of line 90.
\<close>

definition read_image :: "'img env \<Rightarrow> py_exc + json \<Rightarrow> (py_exc + response) + bytes" where
  "read_image lib request_json =
     (case request_json of
        Inl e \<Rightarrow> Inl (Inl e)
      | Inr data \<Rightarrow>
          if \<not> truthy data then
            Inl (Inr (Response (JObj [(''error'', JStr ''Image data is required'')]) 400))
          else
            (case py_in ''image'' data of
               Inl e \<Rightarrow> Inl (Inl e)
             | Inr present \<Rightarrow>
                 if \<not> present then
                   Inl (Inr (Response (JObj [(''error'', JStr ''Image data is required'')]) 400))
                 else
                   (case py_getitem data ''image'' of
                      Inl e \<Rightarrow> Inl (Inl e)
                    | Inr image_data \<Rightarrow>
                        (case image_payload image_data of
                           Inl e \<Rightarrow> Inl (Inl e)
                         | Inr payload \<Rightarrow>
                             (case b64decode lib payload of
                                Inl e \<Rightarrow> Inl (Inl e)
                              | Inr image_bytes \<Rightarrow> Inr image_bytes)))))"

text \<open>
  The \<^verbatim>\<open>try\<close> block of \<^verbatim>\<open>interpret_sign\<close>, lines 87 to 154. \<^verbatim>\<open>Inl\<close> is an exception that
  leaves the block.
\<close>

definition interpret_sign_try ::
  "'img env \<Rightarrow> (string \<times> classifier option) list \<Rightarrow> py_exc + json \<Rightarrow> py_exc + response" where
  "interpret_sign_try lib models request_json =
     (case read_image lib request_json of
        Inl early \<Rightarrow> early
      | Inr image_bytes \<Rightarrow> answer (run_models lib image_bytes models))"

text \<open>
  The handler with its two \<^verbatim>\<open>except\<close> clauses, lines 156 to 163: \<^verbatim>\<open>binascii.Error\<close> is
  answered with status 400, every other exception with status 500.
\<close>

definition interpret_sign ::
  "'img env \<Rightarrow> (string \<times> classifier option) list \<Rightarrow> py_exc + json \<Rightarrow> response" where
  "interpret_sign lib models request_json =
     (case interpret_sign_try lib models request_json of
        Inr r \<Rightarrow> r
      | Inl BinasciiError \<Rightarrow> Response (JObj [(''error'', JStr ''Invalid base64 data'')]) 400
      | Inl _ \<Rightarrow>
          Response
            (JObj [(''error'', JStr ''Internal server error processing sign interpretation'')])
            500)"

section \<open>The endpoint \<^verbatim>\<open>/api/text-to-speech\<close>\<close>

text \<open>
  The handler writes the audio to a file and reads it back, so the files of the working
  directory are part of its state: a map from file names to contents.
\<close>

type_synonym files = "string \<rightharpoonup> bytes"

text \<open>
  The speech library and the disk are parameters: the constructor \<^verbatim>\<open>gTTS(text=, lang=)\<close>,
  the audio that \<^verbatim>\<open>tts.save\<close> fetches (or the exception raised while fetching), what
  \<^verbatim>\<open>audio_file.read()\<close> gives for a stored content (or the I/O error it raises), and
  \<^verbatim>\<open>base64.b64encode\<close>.
\<close>

record 'tts speech =
  gTTS :: "json \<Rightarrow> json \<Rightarrow> py_exc + 'tts"
  fetch_audio :: "'tts \<Rightarrow> py_exc + bytes"
  file_read :: "bytes \<Rightarrow> py_exc + bytes"
  b64encode :: "bytes \<Rightarrow> string"

text \<open>Line 264: the name of the audio file is a literal.\<close>

definition temp_filename :: string where
  "temp_filename = ''temp_audio.mp3''"

text \<open>
  \<^verbatim>\<open>tts.save(name)\<close> opens the file for writing, which creates or empties it, and then
  fetches the audio into it; when fetching raises, the file stays behind, empty.
\<close>

definition tts_save :: "'tts speech \<Rightarrow> 'tts \<Rightarrow> string \<Rightarrow> files \<Rightarrow> (py_exc + unit) \<times> files" where
  "tts_save lib tts name fs =
     (case fetch_audio lib tts of
        Inl e \<Rightarrow> (Inl e, fs(name \<mapsto> []))
      | Inr audio \<Rightarrow> (Inr (), fs(name \<mapsto> audio)))"

text \<open>
  Lines 260 and 261 on the value stored under \<^verbatim>\<open>'language'\<close>: a string holding \<^verbatim>\<open>'-'\<close> is
  cut to its first piece.
\<close>

fun base_language :: "json \<Rightarrow> py_exc + json" where
  "base_language (JStr language) =
     (if str_contains ''-'' language then
        (case py_split language ''-'' of
           Inl e \<Rightarrow> Inl e
         | Inr parts \<Rightarrow> (case parts of p # _ \<Rightarrow> Inr (JStr p) | [] \<Rightarrow> Inl IndexError))
      else Inr (JStr language))"
| "base_language (JArr xs) = (if JStr ''-'' \<in> set xs then Inl AttributeError else Inr (JArr xs))"
| "base_language (JObj kvs) =
     (if ''-'' \<in> set (map fst kvs) then Inl AttributeError else Inr (JObj kvs))"
| "base_language JNull = Inl TypeError"
| "base_language (JBool b) = Inl TypeError"
| "base_language (JNum x) = Inl TypeError"

text \<open>
  Lines 263 to 280, from the creation of the file on: save, read back, remove, answer. The
  second component is the files left when the block is left.
\<close>

definition speak :: "'tts speech \<Rightarrow> 'tts \<Rightarrow> files \<Rightarrow> (py_exc + response) \<times> files" where
  "speak lib tts fs =
     (case tts_save lib tts temp_filename fs of
        (Inl e, fs1) \<Rightarrow> (Inl e, fs1)
      | (Inr _, fs1) \<Rightarrow>
          (case fs1 temp_filename of
             None \<Rightarrow> (Inl OSError, fs1)
           | Some content \<Rightarrow>
               (case file_read lib content of
                  Inl e \<Rightarrow> (Inl e, fs1)
                | Inr audio \<Rightarrow>
                    (let encoded_audio = b64encode lib audio;
                         fs2 = (if temp_filename \<in> dom fs1 then fs1(temp_filename := None)
                                else fs1)
                     in (Inr (Response
                                (JObj [(''audio'',
                                        JStr (''data:audio/mpeg;base64,'' @ encoded_audio))])
                                200),
                         fs2)))))"

text \<open>The \<^verbatim>\<open>try\<close> block of \<^verbatim>\<open>text_to_speech_endpoint\<close>, lines 252 to 280.\<close>

definition text_to_speech_try ::
  "'tts speech \<Rightarrow> files \<Rightarrow> py_exc + json \<Rightarrow> (py_exc + response) \<times> files" where
  "text_to_speech_try lib fs request_json =
     (let required = Response (JObj [(''error'', JStr ''Text and language are required'')]) 400
      in case request_json of
        Inl e \<Rightarrow> (Inl e, fs)
      | Inr data \<Rightarrow>
          if \<not> truthy data then (Inr required, fs)
          else
            (case py_in ''text'' data of
               Inl e \<Rightarrow> (Inl e, fs)
             | Inr has_text \<Rightarrow>
                 if \<not> has_text then (Inr required, fs)
                 else
                   (case py_in ''language'' data of
                      Inl e \<Rightarrow> (Inl e, fs)
                    | Inr has_language \<Rightarrow>
                        if \<not> has_language then (Inr required, fs)
                        else
                          (case py_getitem data ''text'' of
                             Inl e \<Rightarrow> (Inl e, fs)
                           | Inr txt \<Rightarrow>
                               (case py_getitem data ''language'' of
                                  Inl e \<Rightarrow> (Inl e, fs)
                                | Inr language \<Rightarrow>
                                    (case base_language language of
                                       Inl e \<Rightarrow> (Inl e, fs)
                                     | Inr lang \<Rightarrow>
                                         (case gTTS lib txt lang of
                                            Inl e \<Rightarrow> (Inl e, fs)
                                          | Inr tts \<Rightarrow> speak lib tts fs)))))))"

text \<open>The handler with its \<^verbatim>\<open>except\<close> clause, lines 282 to 286.\<close>

definition text_to_speech_endpoint ::
  "'tts speech \<Rightarrow> files \<Rightarrow> py_exc + json \<Rightarrow> response \<times> files" where
  "text_to_speech_endpoint lib fs request_json =
     (case text_to_speech_try lib fs request_json of
        (Inr r, fs') \<Rightarrow> (r, fs')
      | (Inl e, fs') \<Rightarrow>
          (Response
             (JObj [(''error'', JStr ''Internal server error processing text-to-speech'')])
             500,
           fs'))"

section \<open>Ways a model drops out of a request\<close>

text \<open>
  The four ways in which an item of \<^verbatim>\<open>models\<close> adds nothing to \<^verbatim>\<open>results\<close>: the model was
  not loaded; preprocessing returned \<^verbatim>\<open>None\<close>; inference raised (in \<^verbatim>\<open>predict\<close>, in
  \<^verbatim>\<open>predictions[0]\<close> or in \<^verbatim>\<open>np.max\<close>); the predicted index is outside the label table.
\<close>

definition not_loaded :: "string \<times> classifier option \<Rightarrow> bool" where
  "not_loaded item = (snd item = None)"

definition preprocessing_fails :: "'img env \<Rightarrow> bytes \<Rightarrow> string \<times> classifier option \<Rightarrow> bool" where
  "preprocessing_fails lib image_bytes item =
     (preprocess_image_for_keras lib image_bytes (fst item) = None)"

definition inference_fails :: "'img env \<Rightarrow> bytes \<Rightarrow> string \<times> classifier option \<Rightarrow> bool" where
  "inference_fails lib image_bytes item =
     (\<exists>predict t. snd item = Some predict
        \<and> preprocess_image_for_keras lib image_bytes (fst item) = Some t
        \<and> (predict t = None \<or> predict t = Some [] \<or> (\<exists>rest. predict t = Some ([] # rest))))"

definition index_out_of_bounds :: "'img env \<Rightarrow> bytes \<Rightarrow> string \<times> classifier option \<Rightarrow> bool" where
  "index_out_of_bounds lib image_bytes item =
     (\<exists>predict t p0 rest i. snd item = Some predict
        \<and> preprocess_image_for_keras lib image_bytes (fst item) = Some t
        \<and> predict t = Some (p0 # rest)
        \<and> np_argmax p0 = Some i
        \<and> length (label_map_of (fst item)) \<le> i)"

text \<open>
  The one way in which an item adds a candidate: the model is loaded, preprocessing gives a
  tensor, inference gives a batch whose first vector has its first maximum at an index
  inside the label table. The candidate is the item's name, the label at that index and
  the maximum.
\<close>

definition candidate_of ::
  "'img env \<Rightarrow> bytes \<Rightarrow> string \<times> classifier option \<Rightarrow> prediction \<Rightarrow> bool" where
  "candidate_of lib image_bytes item r =
     (\<exists>predict t p0 rest i. snd item = Some predict
        \<and> preprocess_image_for_keras lib image_bytes (fst item) = Some t
        \<and> predict t = Some (p0 # rest)
        \<and> i < length p0 \<and> p0 ! i = Max (set p0) \<and> (\<forall>j<i. p0 ! j < Max (set p0))
        \<and> i < length (label_map_of (fst item))
        \<and> r = \<lparr>model = fst item, label = label_map_of (fst item) ! i,
                confidence = Max (set p0)\<rparr>)"

section \<open>Sample collaborators\<close>

text \<open>
  Small stand-ins for the libraries, on which the theorems below are run. The image is a
  PNG file of one white pixel, 69 bytes long. The decoder knows its base64 text and the
  empty text (no bytes); a text with a character outside ASCII is rejected with
  \<^verbatim>\<open>ValueError\<close>, as \<^verbatim>\<open>base64.b64decode\<close> does before it decodes, and any other text with
  \<^verbatim>\<open>binascii.Error\<close>. The stand-in for Pillow opens the PNG file only; an image is its width,
  height and mode, and \<^verbatim>\<open>np.array\<close> of it is all white, one byte per pixel in mode \<^verbatim>\<open>L\<close> and
  three otherwise, as the resized white pixel is.
\<close>

definition sample_bytes :: bytes where
  "sample_bytes =
     [137, 80, 78, 71, 13, 10, 26, 10, 0, 0, 0, 13, 73, 72, 68, 82, 0, 0, 0, 1, 0, 0, 0, 1,
      8, 2, 0, 0, 0, 144, 119, 83, 222, 0, 0, 0, 12, 73, 68, 65, 84, 120, 218, 99, 248, 255,
      255, 63, 0, 5, 254, 2, 254, 51, 18, 149, 20, 0, 0, 0, 0, 73, 69, 78, 68, 174, 66, 96,
      130]"

definition sample_payload :: string where
  "sample_payload =
     ''iVBORw0KGgoAAAANSUhEUgAAAAEAAAABCAIAAACQd1PeAAAADElEQVR42mP4//8/AAX+Av4zEpUUAAAAAElFTkSuQmCC''"

definition sample_env :: "(nat \<times> nat \<times> string) env" where
  "sample_env =
     \<lparr>b64decode = (\<lambda>s.
         if s = sample_payload then Inr sample_bytes
         else if s = [] then Inr []
         else if \<exists>c \<in> set s. 128 \<le> (of_char c :: nat) then Inl ValueError
         else Inl BinasciiError),
      image_open = (\<lambda>b. if b = sample_bytes then Some (1, 1, ''RGB'') else None),
      resize = (\<lambda>img size. case img of (w, h, m) \<Rightarrow> Some (fst size, snd size, m)),
      convert = (\<lambda>img m'. case img of (w, h, m) \<Rightarrow> Some (w, h, m')),
      np_array = (\<lambda>img. case img of (w, h, m) \<Rightarrow>
         if m = ''L'' then Dim (replicate h (Dim (replicate w (Scalar 255))))
         else Dim (replicate h (Dim (replicate w (Dim (replicate 3 (Scalar 255)))))))\<rparr>"

text \<open>
  Three models on disk: the digit model and the ASL model both answer with top probability
  0.75, the ISL model raises on every input.
\<close>

definition digit_model :: classifier where
  "digit_model = (\<lambda>t. Some [[0.125, 0.75, 0.125]])"

definition asl_model :: classifier where
  "asl_model = (\<lambda>t. Some [[0.75, 0.25]])"

definition isl_model :: classifier where
  "isl_model = (\<lambda>t. None)"

definition sample_keras :: keras where
  "sample_keras =
     \<lparr>path_exists = (\<lambda>p. True),
      load_model = (\<lambda>p.
         if p = ''models/digitSignLanguage.h5'' then Some digit_model
         else if p = ''models/americanSignLanguage.h5'' then Some asl_model
         else Some isl_model)\<rparr>"



text \<open>
  A request whose image is the known payload, and a registry in which no model gives a
  candidate: the digit model puts its top probability at index 10 of eleven outputs, the
  ASL model is not loaded, the ISL model raises.
\<close>

definition sample_request :: "py_exc + json" where
  "sample_request = Inr (JObj [(''image'', JStr sample_payload)])"

definition dropped_models :: "(string \<times> classifier option) list" where
  "dropped_models =
     [(''digit'', Some (\<lambda>t. Some [[0, 0, 0, 0, 0, 0, 0, 0, 0, 0, 1]])),
      (''asl'', None),
      (''isl'', Some (\<lambda>t. None))]"

text \<open>A digit model with eleven outputs whose top probability stands at index 10.\<close>

definition wide_model :: classifier where
  "wide_model = (\<lambda>t. Some [[0, 0, 0, 0, 0, 0, 0, 0, 0, 0, 1]])"

text \<open>
  The characters of a base64 text, and the shape of a data-URL header in front of one: it
  ends with the marker \<^verbatim>\<open>base64,\<close> and the marker occurs nowhere earlier in it (as in every
  header \<^verbatim>\<open>data:<media type>;base64,\<close>, whose only comma is its last character).
\<close>

definition base64_alphabet :: string where
  "base64_alphabet = ''ABCDEFGHIJKLMNOPQRSTUVWXYZabcdefghijklmnopqrstuvwxyz0123456789+/=''"

definition data_url_prefix :: "string \<Rightarrow> bool" where
  "data_url_prefix pre = (suffix ''base64,'' pre \<and> \<not> str_contains ''base64,'' (butlast pre))"

text \<open>
  Stand-ins for the speech library and the disk: synthesis gives three bytes of audio,
  reading a file gives its content, and the encoder knows the base64 text of these three
  bytes. On the second disk every read raises.
\<close>

definition sample_speech :: "unit speech" where
  "sample_speech =
     \<lparr>gTTS = (\<lambda>txt lang. Inr ()),
      fetch_audio = (\<lambda>tts. Inr [73, 68, 51]),
      file_read = (\<lambda>content. Inr content),
      b64encode = (\<lambda>b. if b = [73, 68, 51] then ''SUQz'' else [])\<rparr>"

definition unreadable_disk :: "unit speech" where
  "unreadable_disk = sample_speech\<lparr>file_read := (\<lambda>content. Inl OSError)\<rparr>"

definition speech_request :: "py_exc + json" where
  "speech_request = Inr (JObj [(''text'', JStr ''hello''), (''language'', JStr ''en-US'')])"

definition other_speech_request :: "py_exc + json" where
  "other_speech_request = Inr (JObj [(''text'', JStr ''bye''), (''language'', JStr ''fr'')])"

section \<open>Facts about the helpers\<close>

lemma loop_body_append:
  "loop_body lib b acc item = acc @ loop_body lib b [] item"
  by (auto simp: loop_body_def Let_def split: prod.splits option.splits list.splits)

lemma foldl_loop_body:
  "foldl (loop_body lib b) acc ms = acc @ concat (map (loop_body lib b []) ms)"
proof (induction ms arbitrary: acc)
  case Nil
  show ?case by simp
next
  case (Cons m ms)
  show ?case
    by (simp add: Cons.IH [of "loop_body lib b acc m"]) (metis loop_body_append)
qed

lemma run_models_concat:
  "run_models lib b ms = concat (map (loop_body lib b []) ms)"
  by (simp add: run_models_def foldl_loop_body)

lemma run_models_append:
  "run_models lib b (xs @ ys) = run_models lib b xs @ run_models lib b ys"
  by (simp add: run_models_concat)

lemma run_models_Cons:
  "run_models lib b (x # xs) = loop_body lib b [] x @ run_models lib b xs"
  by (simp add: run_models_concat)

lemma loop_body_model:
  "r \<in> set (loop_body lib b [] item) \<Longrightarrow> loop_body lib b [] item = [r] \<and> model r = fst item"
  by (auto simp: loop_body_def Let_def split: prod.splits option.splits list.splits if_splits)

lemma loop_body_subseq: "subseq (map model (loop_body lib b [] item)) [fst item]"
proof (cases "loop_body lib b [] item")
  case Nil
  then show ?thesis by simp
next
  case (Cons r rs)
  then have "r \<in> set (loop_body lib b [] item)" by simp
  from loop_body_model [OF this] show ?thesis by simp
qed

lemma run_models_subseq: "subseq (map model (run_models lib b ms)) (map fst ms)"
proof (induction ms)
  case Nil
  show ?case by (simp add: run_models_concat)
next
  case (Cons m ms)
  have "subseq (map model (loop_body lib b [] m) @ map model (run_models lib b ms))
          ([fst m] @ map fst ms)"
    by (rule list_emb_append_mono [OF loop_body_subseq Cons.IH])
  then show ?case by (simp add: run_models_Cons)
qed

lemma load_models_names: "map fst (load_models k) = [''digit'', ''asl'', ''isl'']"
  by (simp add: load_models_def MODEL_PATHS_def)

lemma max_from_split:
  "\<forall>r \<in> set pre. key r < key b \<Longrightarrow> \<forall>r \<in> set mid. key r \<le> key b \<Longrightarrow>
   \<exists>pre' post. pre @ b # mid @ xs = pre' @ max_from key b xs # post
      \<and> (\<forall>r \<in> set pre'. key r < key (max_from key b xs))
      \<and> (\<forall>r \<in> set post. key r \<le> key (max_from key b xs))"
proof (induction xs arbitrary: pre b mid)
  case Nil
  then show ?case by auto
next
  case (Cons x xs)
  show ?case
  proof (cases "key x > key b")
    case True
    have "\<forall>r \<in> set (pre @ b # mid). key r < key x"
      using Cons.prems True by auto
    from Cons.IH [OF this, of "[]"] True show ?thesis by simp
  next
    case False
    have "\<forall>r \<in> set (mid @ [x]). key r \<le> key b"
      using Cons.prems False by auto
    from Cons.IH [OF Cons.prems(1) this] False show ?thesis by simp
  qed
qed

lemma py_max_split:
  assumes "xs \<noteq> []"
  shows "\<exists>best pre post. py_max key xs = Inr best \<and> xs = pre @ best # post
           \<and> (\<forall>r \<in> set pre. key r < key best) \<and> (\<forall>r \<in> set post. key r \<le> key best)"
proof -
  from assms obtain x rest where xs: "xs = x # rest" by (cases xs) auto
  have "\<exists>pre' post. [] @ x # [] @ rest = pre' @ max_from key x rest # post
      \<and> (\<forall>r \<in> set pre'. key r < key (max_from key x rest))
      \<and> (\<forall>r \<in> set post. key r \<le> key (max_from key x rest))"
    by (rule max_from_split) simp_all
  then show ?thesis by (simp add: xs py_max_def)
qed

lemma py_max_nonempty: "py_max key xs = Inr best \<Longrightarrow> xs \<noteq> []"
  by (auto simp: py_max_def)

lemma answer_decision:
  assumes "py_max confidence results = Inr best"
  shows "answer results =
     Inr (Response
            (JObj [(''text'', JStr (if KERAS_CONFIDENCE_THRESHOLD \<le> confidence best
                                    then label best
                                    else low_confidence_text (label best))),
                   (''confidence'', JNum (confidence best)),
                   (''model'', JStr (model best))])
            200)"
  using assms py_max_nonempty [OF assms] by (simp add: answer_def)

lemma answer_empty:
  "answer [] =
     Inr (Response
            (JObj [(''text'', JStr ''Unable to interpret sign (Prediction failed for all models)''),
                   (''confidence'', JNum 0),
                   (''model'', JStr ''none'')])
            500)"
  by (simp add: answer_def)

lemma interpret_sign_decoded:
  "read_image lib request_json = Inr image_bytes \<Longrightarrow>
   interpret_sign_try lib models request_json = answer (run_models lib image_bytes models)"
  by (simp add: interpret_sign_try_def)

lemma np_max_None: "np_max v = None \<longleftrightarrow> v = []"
  by (cases v) (simp_all add: np_max_def)

lemma np_argmax_None: "np_argmax v = None \<longleftrightarrow> v = []"
  by (cases v) (simp_all add: np_argmax_def)

lemma np_max_Max: "v \<noteq> [] \<Longrightarrow> np_max v = Some (Max (set v))"
  by (cases v) (simp_all add: np_max_def Max.set_eq_fold [symmetric])

lemma argmax_from_spec:
  "pre \<noteq> [] \<Longrightarrow> bi < length pre \<Longrightarrow> pre ! bi = best \<Longrightarrow> \<forall>j<bi. pre ! j < best \<Longrightarrow>
   \<forall>r \<in> set pre. r \<le> best \<Longrightarrow>
   (let k = argmax_from xs (length pre) best bi in
      k < length (pre @ xs) \<and> (\<forall>r \<in> set (pre @ xs). r \<le> (pre @ xs) ! k) \<and>
      (\<forall>j<k. (pre @ xs) ! j < (pre @ xs) ! k))"
proof (induction xs arbitrary: pre bi best)
  case Nil
  then show ?case by (auto simp: Let_def)
next
  case (Cons x xs)
  show ?case
  proof (cases "x > best")
    case True
    have 1: "pre @ [x] \<noteq> []" "length pre < length (pre @ [x])" "(pre @ [x]) ! length pre = x"
      by simp_all
    have 2: "\<forall>j<length pre. (pre @ [x]) ! j < x"
      using Cons.prems(5) True by (auto simp: nth_append) (metis nth_mem le_less_trans)
    have 3: "\<forall>r \<in> set (pre @ [x]). r \<le> x"
      using Cons.prems(5) True by auto
    from Cons.IH [OF 1 2 3] True show ?thesis by simp
  next
    case False
    have 1: "pre @ [x] \<noteq> []" "bi < length (pre @ [x])" "(pre @ [x]) ! bi = best"
      using Cons.prems by (simp_all add: nth_append)
    have 2: "\<forall>j<bi. (pre @ [x]) ! j < best"
      using Cons.prems by (auto simp: nth_append)
    have 3: "\<forall>r \<in> set (pre @ [x]). r \<le> best"
      using Cons.prems(5) False by auto
    from Cons.IH [OF 1 2 3] False show ?thesis by simp
  qed
qed

lemma np_argmax_spec:
  assumes "v \<noteq> []"
  shows "\<exists>k. np_argmax v = Some k \<and> k < length v \<and> v ! k = Max (set v)
           \<and> (\<forall>j<k. v ! j < v ! k)"
proof -
  from assms obtain x xs where v: "v = x # xs" by (cases v) auto
  let ?k = "argmax_from xs 1 x 0"
  have "(let k = argmax_from xs (length [x]) x 0 in
      k < length ([x] @ xs) \<and> (\<forall>r \<in> set ([x] @ xs). r \<le> ([x] @ xs) ! k) \<and>
      (\<forall>j<k. ([x] @ xs) ! j < ([x] @ xs) ! k))"
    by (rule argmax_from_spec) simp_all
  then have k: "?k < length v" "\<forall>r \<in> set v. r \<le> v ! ?k" "\<forall>j < ?k. v ! j < v ! ?k"
    using v by (simp_all add: Let_def)
  have "v ! ?k \<in> set v" using k(1) by simp
  then have "Max (set v) = v ! ?k"
    using k(2) by (intro Max_eqI) auto
  then show ?thesis using k v by (simp add: np_argmax_def)
qed

lemma loop_body_candidate:
  assumes "r \<in> set (loop_body lib b [] (model_type, m))"
  shows "\<exists>predict t p0 rest i. m = Some predict
           \<and> preprocess_image_for_keras lib b model_type = Some t
           \<and> predict t = Some (p0 # rest) \<and> p0 \<noteq> []
           \<and> np_max p0 = Some (confidence r) \<and> np_argmax p0 = Some i
           \<and> i < length (label_map_of model_type)
           \<and> model r = model_type \<and> label r = label_map_of model_type ! i"
proof -
  obtain predict where m: "m = Some predict"
    using assms by (cases m) (auto simp: loop_body_def)
  obtain t where t: "preprocess_image_for_keras lib b model_type = Some t"
    using assms m
    by (cases "preprocess_image_for_keras lib b model_type") (auto simp: loop_body_def)
  obtain preds where preds: "predict t = Some preds"
    using assms m t by (cases "predict t") (auto simp: loop_body_def)
  obtain p0 rest where p: "preds = p0 # rest"
    using assms m t preds by (cases preds) (auto simp: loop_body_def)
  obtain c where c: "np_max p0 = Some c"
    using assms m t preds p by (cases "np_max p0") (auto simp: loop_body_def)
  obtain i where i: "np_argmax p0 = Some i"
    using assms m t preds p c by (cases "np_argmax p0") (auto simp: loop_body_def)
  have ne: "p0 \<noteq> []"
    using c np_max_None [of p0] by auto
  have len: "i < length (label_map_of model_type)"
    and r: "r = \<lparr>model = model_type, label = label_map_of model_type ! i, confidence = c\<rparr>"
    using assms m t preds p c i by (auto simp: loop_body_def Let_def split: if_splits)
  from m t preds p c i ne len r show ?thesis by simp
qed

lemma run_models_candidate:
  assumes "r \<in> set (run_models lib b ms)"
  shows "\<exists>item \<in> set ms. r \<in> set (loop_body lib b [] item)"
  using assms by (auto simp: run_models_concat)

lemma py_max_member: "py_max key xs = Inr best \<Longrightarrow> best \<in> set xs"
proof -
  assume b: "py_max key xs = Inr best"
  from py_max_split [OF py_max_nonempty [OF b], of key] b show ?thesis by auto
qed

lemma first_maximum_unique:
  assumes "i < length v" and "v ! i = Max (set v)" and "\<forall>j<i. v ! j < Max (set v)"
    and "k < length v" and "v ! k = Max (set v)" and "\<forall>j<k. v ! j < Max (set v)"
  shows "i = k"
proof (rule ccontr)
  assume "i \<noteq> k"
  then consider "i < k" | "k < i" by linarith
  then show False
  proof cases
    case 1
    with assms(6) have "v ! i < Max (set v)" by simp
    with assms(2) show False by simp
  next
    case 2
    with assms(3) have "v ! k < Max (set v)" by simp
    with assms(5) show False by simp
  qed
qed

lemma np_argmax_first_maximum:
  assumes "i < length v" and "v ! i = Max (set v)" and "\<forall>j<i. v ! j < Max (set v)"
  shows "np_argmax v = Some i"
proof -
  from assms(1) have "v \<noteq> []" by auto
  from np_argmax_spec [OF this] obtain k where k: "np_argmax v = Some k" "k < length v"
    "v ! k = Max (set v)" "\<forall>j<k. v ! j < v ! k"
    by blast
  then have "\<forall>j<k. v ! j < Max (set v)" by simp
  from first_maximum_unique [OF assms k(2,3) this] k(1) show ?thesis by simp
qed

lemma loop_body_gives:
  assumes "candidate_of lib b item r"
  shows "loop_body lib b results item = results @ [r]"
proof -
  from assms obtain predict t p0 rest i where m: "snd item = Some predict"
    and t: "preprocess_image_for_keras lib b (fst item) = Some t"
    and p: "predict t = Some (p0 # rest)"
    and i: "i < length p0" "p0 ! i = Max (set p0)" "\<forall>j<i. p0 ! j < Max (set p0)"
    and len: "i < length (label_map_of (fst item))"
    and r: "r = \<lparr>model = fst item, label = label_map_of (fst item) ! i,
                  confidence = Max (set p0)\<rparr>"
    unfolding candidate_of_def by blast
  from i(1) have ne: "p0 \<noteq> []" by auto
  have am: "np_argmax p0 = Some i" by (rule np_argmax_first_maximum [OF i])
  show ?thesis
    using m t p am np_max_Max [OF ne] len r by (cases item) (simp add: loop_body_def)
qed

lemma loop_body_only:
  assumes "r \<in> set (loop_body lib b [] item)"
  shows "candidate_of lib b item r"
proof -
  obtain model_type m where item: "item = (model_type, m)" by (cases item)
  from loop_body_candidate [OF assms [unfolded item]]
  obtain predict t p0 rest i where m: "m = Some predict"
    and t: "preprocess_image_for_keras lib b model_type = Some t"
    and p: "predict t = Some (p0 # rest)" and ne: "p0 \<noteq> []"
    and c: "np_max p0 = Some (confidence r)" and i: "np_argmax p0 = Some i"
    and len: "i < length (label_map_of model_type)"
    and mt: "model r = model_type" and l: "label r = label_map_of model_type ! i"
    by blast
  from np_argmax_spec [OF ne] i
  have at: "i < length p0" "p0 ! i = Max (set p0)" "\<forall>j<i. p0 ! j < Max (set p0)" by auto
  from np_max_Max [OF ne] c have conf: "confidence r = Max (set p0)" by simp
  have "r = \<lparr>model = model_type, label = label_map_of model_type ! i,
               confidence = Max (set p0)\<rparr>"
    using mt l conf by simp
  with m t p at len show ?thesis unfolding candidate_of_def item by auto
qed

lemma run_models_set:
  "set (run_models lib b ms) = {r. \<exists>item \<in> set ms. candidate_of lib b item r}"
proof (intro set_eqI iffI)
  fix r
  assume "r \<in> set (run_models lib b ms)"
  from run_models_candidate [OF this] loop_body_only
  show "r \<in> {r. \<exists>item \<in> set ms. candidate_of lib b item r}" by blast
next
  fix r
  assume "r \<in> {r. \<exists>item \<in> set ms. candidate_of lib b item r}"
  then obtain item where item: "item \<in> set ms" and "candidate_of lib b item r" by blast
  then have "r \<in> set (loop_body lib b [] item)"
    using loop_body_gives [of lib b item r "[]"] by simp
  with item show "r \<in> set (run_models lib b ms)"
    unfolding run_models_concat by auto
qed

lemma loop_body_not_loaded: "not_loaded item \<Longrightarrow> loop_body lib b [] item = []"
  by (cases item) (simp add: not_loaded_def loop_body_def)

lemma loop_body_preprocessing_fails:
  "preprocessing_fails lib b item \<Longrightarrow> loop_body lib b [] item = []"
  by (cases item) (simp add: preprocessing_fails_def loop_body_def split: option.splits)

lemma loop_body_inference_fails:
  assumes "inference_fails lib b item"
  shows "loop_body lib b [] item = []"
proof -
  from assms obtain predict t where m: "snd item = Some predict"
    and t: "preprocess_image_for_keras lib b (fst item) = Some t"
    and p: "predict t = None \<or> predict t = Some [] \<or> (\<exists>rest. predict t = Some ([] # rest))"
    unfolding inference_fails_def by blast
  from p show ?thesis
    using m t by (cases item) (auto simp: loop_body_def np_max_def np_argmax_def)
qed

lemma loop_body_index_out_of_bounds:
  assumes "index_out_of_bounds lib b item"
  shows "loop_body lib b [] item = []"
proof -
  from assms obtain predict t p0 rest i where m: "snd item = Some predict"
    and t: "preprocess_image_for_keras lib b (fst item) = Some t"
    and p: "predict t = Some (p0 # rest)"
    and i: "np_argmax p0 = Some i"
    and len: "length (label_map_of (fst item)) \<le> i"
    unfolding index_out_of_bounds_def by blast
  show ?thesis
    using m t p i len by (cases item) (simp add: loop_body_def split: option.splits)
qed

lemma loop_body_dropped:
  assumes "not_loaded item \<or> preprocessing_fails lib b item \<or> inference_fails lib b item
     \<or> index_out_of_bounds lib b item"
  shows "loop_body lib b [] item = []"
  using assms loop_body_not_loaded loop_body_preprocessing_fails loop_body_inference_fails
    loop_body_index_out_of_bounds by blast

lemma run_models_dropped:
  assumes "\<forall>item \<in> set ms. not_loaded item \<or> preprocessing_fails lib b item
     \<or> inference_fails lib b item \<or> index_out_of_bounds lib b item"
  shows "run_models lib b ms = []"
  using assms by (simp add: run_models_concat loop_body_dropped)

lemma sample_payload_bare: "\<not> str_contains ''base64,'' sample_payload"
  by (simp add: sample_payload_def)

lemma sample_read_image: "read_image sample_env sample_request = Inr sample_bytes"
  by (simp add: read_image_def sample_request_def sample_env_def sample_payload_bare)

lemma sample_preprocess:
  "\<exists>t. preprocess_image_for_keras sample_env sample_bytes ''digit'' = Some t"
  "\<exists>t. preprocess_image_for_keras sample_env sample_bytes ''asl'' = Some t"
  "\<exists>t. preprocess_image_for_keras sample_env sample_bytes ''isl'' = Some t"
  by (simp_all add: preprocess_image_for_keras_def sample_env_def sample_bytes_def)

lemma sample_models:
  "load_models sample_keras =
     [(''digit'', Some digit_model), (''asl'', Some asl_model), (''isl'', Some isl_model)]"
  by (simp add: load_models_def MODEL_PATHS_def MODEL_DIR_def path_join_def sample_keras_def)

lemma sample_results:
  "run_models sample_env sample_bytes (load_models sample_keras) =
     [\<lparr>model = ''digit'', label = ''1'', confidence = 0.75\<rparr>,
      \<lparr>model = ''asl'', label = ''A'', confidence = 0.75\<rparr>]"
  by (simp add: run_models_def load_models_def MODEL_PATHS_def MODEL_DIR_def path_join_def
      sample_keras_def loop_body_def preprocess_image_for_keras_def sample_env_def
      np_max_def np_argmax_def label_map_of_def LABEL_MAPS_def
      DIGIT_LABELS_def ASL_LABELS_def labels_of_def digit_model_def asl_model_def
      isl_model_def)

section \<open>The arbiter\<close>

text \<open>
  Claim C1. Whenever a request carries an image and the models loaded at start-up give at
  least one candidate for it, the candidate list splits around one candidate \<open>best\<close> such
  that every candidate before it has a strictly smaller confidence and every candidate
  after it has a confidence that is not larger: \<open>best\<close> is the first candidate of maximum
  confidence. The candidates stand in the list in the order digit, asl, isl, at most one
  per name, so among candidates that share the maximum the one whose name comes first in
  that order is \<open>best\<close>. It is what \<^verbatim>\<open>max(results, key=...)\<close> returns, and the handler answers
  with the label, confidence and model of this candidate, with status 200. The answer is a
  function of the request.
\<close>

theorem arbiter_selects_first_maximum:
  assumes "read_image lib request_json = Inr image_bytes"
    and "results = run_models lib image_bytes (load_models k)"
    and "results \<noteq> []"
  shows "\<exists>best pre post. py_max confidence results = Inr best
           \<and> results = pre @ best # post
           \<and> (\<forall>r \<in> set pre. confidence r < confidence best)
           \<and> (\<forall>r \<in> set post. confidence r \<le> confidence best)
           \<and> subseq (map model results) [''digit'', ''asl'', ''isl'']
           \<and> interpret_sign lib (load_models k) request_json =
               Response
                 (JObj [(''text'', JStr (if KERAS_CONFIDENCE_THRESHOLD \<le> confidence best
                                         then label best
                                         else low_confidence_text (label best))),
                        (''confidence'', JNum (confidence best)),
                        (''model'', JStr (model best))])
                 200"
proof -
  have "subseq (map model results) (map fst (load_models k))"
    unfolding assms(2) by (rule run_models_subseq)
  then have order: "subseq (map model results) [''digit'', ''asl'', ''isl'']"
    by (simp only: load_models_names)
  from py_max_split [OF assms(3), of confidence]
  obtain best pre post where best: "py_max confidence results = Inr best"
    and split: "results = pre @ best # post"
    and before: "\<forall>r \<in> set pre. confidence r < confidence best"
    and after: "\<forall>r \<in> set post. confidence r \<le> confidence best"
    by blast
  have "interpret_sign lib (load_models k) request_json =
               Response
                 (JObj [(''text'', JStr (if KERAS_CONFIDENCE_THRESHOLD \<le> confidence best
                                         then label best
                                         else low_confidence_text (label best))),
                        (''confidence'', JNum (confidence best)),
                        (''model'', JStr (model best))])
                 200"
    using answer_decision [OF best] assms(2)
    by (simp add: interpret_sign_def interpret_sign_decoded [OF assms(1)])
  with best split before after order show ?thesis by blast
qed

theorem arbiter_selects_first_maximum_witness:
  "read_image sample_env sample_request = Inr sample_bytes
   \<and> run_models sample_env sample_bytes (load_models sample_keras) =
       [\<lparr>model = ''digit'', label = ''1'', confidence = 0.75\<rparr>,
        \<lparr>model = ''asl'', label = ''A'', confidence = 0.75\<rparr>]
   \<and> py_max confidence (run_models sample_env sample_bytes (load_models sample_keras)) =
       Inr \<lparr>model = ''digit'', label = ''1'', confidence = 0.75\<rparr>
   \<and> interpret_sign sample_env (load_models sample_keras) sample_request =
       Response
         (JObj [(''text'', JStr ''1''), (''confidence'', JNum 0.75), (''model'', JStr ''digit'')])
         200"
proof -
  let ?results = "run_models sample_env sample_bytes (load_models sample_keras)"
  let ?digit = "\<lparr>model = ''digit'', label = ''1'', confidence = 0.75\<rparr>"
  have ne: "?results \<noteq> []"
    by (simp add: sample_results)
  from arbiter_selects_first_maximum [OF sample_read_image refl ne]
  obtain best where best: "py_max confidence ?results = Inr best"
    and resp: "interpret_sign sample_env (load_models sample_keras) sample_request =
               Response
                 (JObj [(''text'', JStr (if KERAS_CONFIDENCE_THRESHOLD \<le> confidence best
                                         then label best
                                         else low_confidence_text (label best))),
                        (''confidence'', JNum (confidence best)),
                        (''model'', JStr (model best))])
                 200"
    by blast
  have first: "py_max confidence ?results = Inr ?digit"
    by (simp add: sample_results py_max_def)
  with best have "best = ?digit" by simp
  with resp have "interpret_sign sample_env (load_models sample_keras) sample_request =
       Response
         (JObj [(''text'', JStr ''1''), (''confidence'', JNum 0.75), (''model'', JStr ''digit'')])
         200"
    by (simp add: KERAS_CONFIDENCE_THRESHOLD_def)
  with sample_read_image sample_results first show ?thesis by blast
qed

section \<open>No candidate at all\<close>

text \<open>
  Claim C3. When a request carries an image and every item of the registry drops out (the
  model is not loaded, or preprocessing fails for it, or inference raises, or its predicted
  index lies outside its label table), no candidate is collected and the handler answers
  with the fixed text, confidence 0 and model \<^verbatim>\<open>none\<close>, as a JSON body with status 500: a
  response, not an exception. An empty registry is the case of no item at all.
\<close>

theorem no_survivor_response:
  assumes "read_image lib request_json = Inr image_bytes"
    and "\<forall>item \<in> set models.
           not_loaded item \<or> preprocessing_fails lib image_bytes item
           \<or> inference_fails lib image_bytes item \<or> index_out_of_bounds lib image_bytes item"
  shows "run_models lib image_bytes models = []
     \<and> interpret_sign lib models request_json =
         Response
           (JObj [(''text'', JStr ''Unable to interpret sign (Prediction failed for all models)''),
                  (''confidence'', JNum 0),
                  (''model'', JStr ''none'')])
           500"
proof -
  have none: "run_models lib image_bytes models = []"
    using assms(2) by (rule run_models_dropped)
  then show ?thesis
    by (simp add: interpret_sign_def interpret_sign_decoded [OF assms(1)] answer_empty)
qed

theorem no_survivor_response_witness:
  "read_image sample_env sample_request = Inr sample_bytes
   \<and> index_out_of_bounds sample_env sample_bytes (dropped_models ! 0)
   \<and> not_loaded (dropped_models ! 1)
   \<and> inference_fails sample_env sample_bytes (dropped_models ! 2)
   \<and> run_models sample_env sample_bytes dropped_models = []
   \<and> interpret_sign sample_env dropped_models sample_request =
       Response
         (JObj [(''text'', JStr ''Unable to interpret sign (Prediction failed for all models)''),
                (''confidence'', JNum 0),
                (''model'', JStr ''none'')])
         500"
proof -
  obtain t where t: "preprocess_image_for_keras sample_env sample_bytes ''digit'' = Some t"
    using sample_preprocess(1) by blast
  obtain u where u: "preprocess_image_for_keras sample_env sample_bytes ''isl'' = Some u"
    using sample_preprocess(3) by blast
  have d: "index_out_of_bounds sample_env sample_bytes (dropped_models ! 0)"
    by (simp add: index_out_of_bounds_def dropped_models_def t np_argmax_def label_map_of_def
        LABEL_MAPS_def DIGIT_LABELS_def labels_of_def)
  have a: "not_loaded (dropped_models ! 1)"
    by (simp add: not_loaded_def dropped_models_def)
  have i: "inference_fails sample_env sample_bytes (dropped_models ! 2)"
    by (simp add: inference_fails_def dropped_models_def u)
  have all: "\<forall>item \<in> set dropped_models.
           not_loaded item \<or> preprocessing_fails sample_env sample_bytes item
           \<or> inference_fails sample_env sample_bytes item
           \<or> index_out_of_bounds sample_env sample_bytes item"
    using d a i by (simp add: dropped_models_def)
  from no_survivor_response [OF sample_read_image all] sample_read_image d a i
  show ?thesis by blast
qed

section \<open>The acceptance threshold\<close>

lemma interpret_sign_decision:
  assumes "read_image lib request_json = Inr image_bytes"
    and "py_max confidence (run_models lib image_bytes models) = Inr best"
  shows "interpret_sign lib models request_json =
     Response
       (JObj [(''text'', JStr (if KERAS_CONFIDENCE_THRESHOLD \<le> confidence best
                               then label best
                               else low_confidence_text (label best))),
              (''confidence'', JNum (confidence best)),
              (''model'', JStr (model best))])
       200"
  using answer_decision [OF assms(2)]
  by (simp add: interpret_sign_def interpret_sign_decoded [OF assms(1)])







section \<open>One model failing\<close>

lemma run_models_without:
  assumes "loop_body lib b [] item = []"
  shows "run_models lib b (before @ item # after) = run_models lib b (before @ after)"
  using assms by (simp add: run_models_concat)

lemma interpret_sign_same_results:
  assumes "read_image lib request_json = Inr image_bytes"
    and "run_models lib image_bytes ms = run_models lib image_bytes ms'"
  shows "interpret_sign lib ms request_json = interpret_sign lib ms' request_json"
  using assms(2) by (simp add: interpret_sign_def interpret_sign_decoded [OF assms(1)])

lemma sample_isl_fails: "inference_fails sample_env sample_bytes (''isl'', Some isl_model)"
proof -
  obtain u where "preprocess_image_for_keras sample_env sample_bytes ''isl'' = Some u"
    using sample_preprocess(3) by blast
  then show ?thesis by (simp add: inference_fails_def isl_model_def)
qed

text \<open>
  Claim C4. When preprocessing or inference fails for one item of the registry, the
  candidates collected over the whole registry are exactly those collected over the
  registry without that item, whatever stands before and after it: they are the candidates
  that the other items give, each of them. The handler gives the same answer as it would
  without the item: the failure ends that item's turn and nothing else.
\<close>

theorem failing_model_is_absorbed:
  assumes "read_image lib request_json = Inr image_bytes"
    and "preprocessing_fails lib image_bytes (model_type, m)
         \<or> inference_fails lib image_bytes (model_type, m)"
  shows "run_models lib image_bytes (before @ (model_type, m) # after) =
           run_models lib image_bytes (before @ after)
       \<and> set (run_models lib image_bytes (before @ (model_type, m) # after)) =
           {r. \<exists>item \<in> set (before @ after). candidate_of lib image_bytes item r}
       \<and> interpret_sign lib (before @ (model_type, m) # after) request_json =
           interpret_sign lib (before @ after) request_json"
proof -
  have "loop_body lib image_bytes [] (model_type, m) = []"
    using assms(2) loop_body_preprocessing_fails loop_body_inference_fails by blast
  then have same: "run_models lib image_bytes (before @ (model_type, m) # after) =
           run_models lib image_bytes (before @ after)"
    by (rule run_models_without)
  have "set (run_models lib image_bytes (before @ (model_type, m) # after)) =
           {r. \<exists>item \<in> set (before @ after). candidate_of lib image_bytes item r}"
    unfolding same by (rule run_models_set)
  with interpret_sign_same_results [OF assms(1) same] same show ?thesis by simp
qed

theorem failing_model_is_absorbed_witness:
  "read_image sample_env sample_request = Inr sample_bytes
   \<and> inference_fails sample_env sample_bytes (''isl'', Some isl_model)
   \<and> run_models sample_env sample_bytes
         ([(''digit'', Some digit_model), (''asl'', Some asl_model)]
          @ (''isl'', Some isl_model) # []) =
       run_models sample_env sample_bytes
         ([(''digit'', Some digit_model), (''asl'', Some asl_model)] @ [])
   \<and> set (run_models sample_env sample_bytes
         ([(''digit'', Some digit_model), (''asl'', Some asl_model)]
          @ (''isl'', Some isl_model) # [])) =
       {r. \<exists>item \<in> set ([(''digit'', Some digit_model), (''asl'', Some asl_model)] @ []).
             candidate_of sample_env sample_bytes item r}
   \<and> run_models sample_env sample_bytes (load_models sample_keras) =
       [\<lparr>model = ''digit'', label = ''1'', confidence = 0.75\<rparr>,
        \<lparr>model = ''asl'', label = ''A'', confidence = 0.75\<rparr>]
   \<and> interpret_sign sample_env
         ([(''digit'', Some digit_model), (''asl'', Some asl_model)]
          @ (''isl'', Some isl_model) # []) sample_request =
       interpret_sign sample_env
         ([(''digit'', Some digit_model), (''asl'', Some asl_model)] @ []) sample_request
   \<and> interpret_sign sample_env (load_models sample_keras) sample_request =
       Response
         (JObj [(''text'', JStr ''1''), (''confidence'', JNum 0.75), (''model'', JStr ''digit'')])
         200
   \<and> read_image sample_env (Inr (JObj [(''image'', JStr [])])) = Inr []
   \<and> preprocessing_fails sample_env [] (''digit'', Some digit_model)
   \<and> run_models sample_env [] ([] @ (''digit'', Some digit_model) # []) =
       run_models sample_env [] ([] @ [])
   \<and> interpret_sign sample_env ([] @ (''digit'', Some digit_model) # [])
         (Inr (JObj [(''image'', JStr [])])) =
       interpret_sign sample_env ([] @ []) (Inr (JObj [(''image'', JStr [])]))"
proof -
  have e: "read_image sample_env (Inr (JObj [(''image'', JStr [])])) = Inr []"
    by (simp add: read_image_def sample_env_def sample_payload_def)
  have pf: "preprocessing_fails sample_env [] (''digit'', Some digit_model)"
    by (simp add: preprocessing_fails_def preprocess_image_for_keras_def sample_env_def
        sample_bytes_def)
  then have pf': "preprocessing_fails sample_env [] (''digit'', Some digit_model)
         \<or> inference_fails sample_env [] (''digit'', Some digit_model)"
    by simp
  note second = failing_model_is_absorbed [OF e pf', of "[]" "[]"]
  have f: "preprocessing_fails sample_env sample_bytes (''isl'', Some isl_model)
         \<or> inference_fails sample_env sample_bytes (''isl'', Some isl_model)"
    using sample_isl_fails by simp
  have r: "py_max confidence (run_models sample_env sample_bytes (load_models sample_keras)) =
       Inr \<lparr>model = ''digit'', label = ''1'', confidence = 0.75\<rparr>"
    by (simp add: sample_results py_max_def)
  have "interpret_sign sample_env (load_models sample_keras) sample_request =
       Response
         (JObj [(''text'', JStr ''1''), (''confidence'', JNum 0.75), (''model'', JStr ''digit'')])
         200"
    using interpret_sign_decision [OF sample_read_image r]
    by (simp add: KERAS_CONFIDENCE_THRESHOLD_def)
  with failing_model_is_absorbed [OF sample_read_image f,
      of "[(''digit'', Some digit_model), (''asl'', Some asl_model)]" "[]"]
    sample_read_image sample_isl_fails e pf second sample_results
  show ?thesis by blast
qed

section \<open>The bound check on the predicted index\<close>

lemma sample_asl_candidate:
  "candidate_of sample_env sample_bytes (''asl'', Some asl_model)
     \<lparr>model = ''asl'', label = ''A'', confidence = 0.75\<rparr>"
proof -
  obtain t where t: "preprocess_image_for_keras sample_env sample_bytes ''asl'' = Some t"
    using sample_preprocess(2) by blast
  show ?thesis
    unfolding candidate_of_def
    by (intro exI [of _ asl_model] exI [of _ t] exI [of _ "[0.75, 0.25]"]
          exI [of _ "[]"] exI [of _ 0])
      (simp add: t asl_model_def label_map_of_def LABEL_MAPS_def ASL_LABELS_def labels_of_def)
qed

lemma sample_digit_wide: "index_out_of_bounds sample_env sample_bytes (''digit'', Some wide_model)"
proof -
  obtain t where "preprocess_image_for_keras sample_env sample_bytes ''digit'' = Some t"
    using sample_preprocess(1) by blast
  then show ?thesis
    by (simp add: index_out_of_bounds_def wide_model_def np_argmax_def label_map_of_def
        LABEL_MAPS_def DIGIT_LABELS_def labels_of_def)
qed

text \<open>
  Claim C6. For a request that carries an image: an item whose predicted index is not
  below the length of its label table adds no candidate, and the handler answers as it
  would without the item, while an item whose first maximum stands at an index inside its
  label table adds its candidate. Consequently, whenever there is a winner, it comes from a loaded
  model of the registry whose first output vector has its first maximum at an index inside
  that model's label table; the winner's label is the entry of the table at that index,
  its confidence is the maximum of the vector, and the handler answers with them.
\<close>

theorem out_of_range_index_is_skipped:
  assumes "read_image lib request_json = Inr image_bytes"
  shows "(index_out_of_bounds lib image_bytes (model_type, m) \<longrightarrow>
            run_models lib image_bytes (before @ (model_type, m) # after) =
              run_models lib image_bytes (before @ after)
            \<and> interpret_sign lib (before @ (model_type, m) # after) request_json =
                interpret_sign lib (before @ after) request_json)
       \<and> (candidate_of lib image_bytes item r \<longrightarrow>
            loop_body lib image_bytes results item = results @ [r])
       \<and> (py_max confidence (run_models lib image_bytes models) = Inr best \<longrightarrow>
            (\<exists>predict t p0 rest i.
               (model best, Some predict) \<in> set models
               \<and> preprocess_image_for_keras lib image_bytes (model best) = Some t
               \<and> predict t = Some (p0 # rest)
               \<and> np_argmax p0 = Some i
               \<and> i < length (label_map_of (model best))
               \<and> label best = label_map_of (model best) ! i
               \<and> label best \<in> set (label_map_of (model best))
               \<and> p0 ! i = Max (set p0)
               \<and> confidence best = Max (set p0)
               \<and> interpret_sign lib models request_json =
                   Response
                     (JObj [(''text'', JStr (if KERAS_CONFIDENCE_THRESHOLD \<le> confidence best
                                             then label best
                                             else low_confidence_text (label best))),
                            (''confidence'', JNum (confidence best)),
                            (''model'', JStr (model best))])
                     200))"
proof (intro conjI impI)
  assume oob: "index_out_of_bounds lib image_bytes (model_type, m)"
  have "loop_body lib image_bytes [] (model_type, m) = []"
    using oob by (rule loop_body_index_out_of_bounds)
  then show same: "run_models lib image_bytes (before @ (model_type, m) # after) =
              run_models lib image_bytes (before @ after)"
    by (rule run_models_without)
  show "interpret_sign lib (before @ (model_type, m) # after) request_json =
                interpret_sign lib (before @ after) request_json"
    by (rule interpret_sign_same_results [OF assms same])
next
  assume "candidate_of lib image_bytes item r"
  then show "loop_body lib image_bytes results item = results @ [r]"
    by (rule loop_body_gives)
next
  assume best: "py_max confidence (run_models lib image_bytes models) = Inr best"
  from run_models_candidate [OF py_max_member [OF best]]
  obtain model_type m where item: "(model_type, m) \<in> set models"
    and r: "best \<in> set (loop_body lib image_bytes [] (model_type, m))"
    by (metis prod.collapse)
  from loop_body_candidate [OF r]
  obtain predict t p0 rest i where m: "m = Some predict"
    and t: "preprocess_image_for_keras lib image_bytes model_type = Some t"
    and p: "predict t = Some (p0 # rest)" and ne: "p0 \<noteq> []"
    and c: "np_max p0 = Some (confidence best)" and i: "np_argmax p0 = Some i"
    and len: "i < length (label_map_of model_type)"
    and mt: "model best = model_type" and l: "label best = label_map_of model_type ! i"
    by blast
  from np_argmax_spec [OF ne] i have at: "p0 ! i = Max (set p0)" by auto
  from np_max_Max [OF ne] c have conf: "confidence best = Max (set p0)" by simp
  have mem: "label best \<in> set (label_map_of (model best))"
    using len l mt by simp
  from item m t p i len l at conf mem interpret_sign_decision [OF assms best]
  show "\<exists>predict t p0 rest i.
               (model best, Some predict) \<in> set models
               \<and> preprocess_image_for_keras lib image_bytes (model best) = Some t
               \<and> predict t = Some (p0 # rest)
               \<and> np_argmax p0 = Some i
               \<and> i < length (label_map_of (model best))
               \<and> label best = label_map_of (model best) ! i
               \<and> label best \<in> set (label_map_of (model best))
               \<and> p0 ! i = Max (set p0)
               \<and> confidence best = Max (set p0)
               \<and> interpret_sign lib models request_json =
                   Response
                     (JObj [(''text'', JStr (if KERAS_CONFIDENCE_THRESHOLD \<le> confidence best
                                             then label best
                                             else low_confidence_text (label best))),
                            (''confidence'', JNum (confidence best)),
                            (''model'', JStr (model best))])
                     200"
    unfolding mt by blast
qed

theorem out_of_range_index_is_skipped_witness:
  "read_image sample_env sample_request = Inr sample_bytes
   \<and> index_out_of_bounds sample_env sample_bytes (''digit'', Some wide_model)
   \<and> run_models sample_env sample_bytes
         ([] @ (''digit'', Some wide_model) # [(''asl'', Some asl_model)]) =
       run_models sample_env sample_bytes ([] @ [(''asl'', Some asl_model)])
   \<and> interpret_sign sample_env
         ([] @ (''digit'', Some wide_model) # [(''asl'', Some asl_model)]) sample_request =
       interpret_sign sample_env ([] @ [(''asl'', Some asl_model)]) sample_request
   \<and> candidate_of sample_env sample_bytes (''asl'', Some asl_model)
         \<lparr>model = ''asl'', label = ''A'', confidence = 0.75\<rparr>
   \<and> loop_body sample_env sample_bytes [] (''asl'', Some asl_model) =
       [] @ [\<lparr>model = ''asl'', label = ''A'', confidence = 0.75\<rparr>]
   \<and> py_max confidence (run_models sample_env sample_bytes (load_models sample_keras)) =
       Inr \<lparr>model = ''digit'', label = ''1'', confidence = 0.75\<rparr>
   \<and> (\<exists>predict t p0 rest i.
         (''digit'', Some predict) \<in> set (load_models sample_keras)
         \<and> preprocess_image_for_keras sample_env sample_bytes ''digit'' = Some t
         \<and> predict t = Some (p0 # rest)
         \<and> np_argmax p0 = Some i
         \<and> i < length (label_map_of ''digit'')
         \<and> ''1'' = label_map_of ''digit'' ! i
         \<and> ''1'' \<in> set (label_map_of ''digit'')
         \<and> p0 ! i = Max (set p0)
         \<and> 0.75 = Max (set p0)
         \<and> interpret_sign sample_env (load_models sample_keras) sample_request =
             Response
               (JObj [(''text'', JStr ''1''), (''confidence'', JNum 0.75),
                      (''model'', JStr ''digit'')])
               200)"
proof -
  let ?w = "\<lparr>model = ''digit'', label = ''1'', confidence = 0.75\<rparr>"
  have r: "py_max confidence (run_models sample_env sample_bytes (load_models sample_keras)) =
       Inr ?w"
    by (simp add: sample_results py_max_def)
  have ge: "KERAS_CONFIDENCE_THRESHOLD \<le> 0.75"
    by (simp add: KERAS_CONFIDENCE_THRESHOLD_def)
  note T = out_of_range_index_is_skipped [OF sample_read_image,
      where model_type = "''digit''" and m = "Some wide_model" and before = "[]"
        and after = "[(''asl'', Some asl_model)]" and models = "load_models sample_keras"
        and best = ?w and item = "(''asl'', Some asl_model)" and results = "[]"
        and r = "\<lparr>model = ''asl'', label = ''A'', confidence = 0.75\<rparr>"]
  from T sample_asl_candidate
  have 0: "loop_body sample_env sample_bytes [] (''asl'', Some asl_model) =
       [] @ [\<lparr>model = ''asl'', label = ''A'', confidence = 0.75\<rparr>]"
    by blast
  from T sample_digit_wide
  have 1: "run_models sample_env sample_bytes
         ([] @ (''digit'', Some wide_model) # [(''asl'', Some asl_model)]) =
       run_models sample_env sample_bytes ([] @ [(''asl'', Some asl_model)])"
    and 2: "interpret_sign sample_env
         ([] @ (''digit'', Some wide_model) # [(''asl'', Some asl_model)]) sample_request =
       interpret_sign sample_env ([] @ [(''asl'', Some asl_model)]) sample_request"
    by blast+
  from T r ge
  have 3: "\<exists>predict t p0 rest i.
         (''digit'', Some predict) \<in> set (load_models sample_keras)
         \<and> preprocess_image_for_keras sample_env sample_bytes ''digit'' = Some t
         \<and> predict t = Some (p0 # rest)
         \<and> np_argmax p0 = Some i
         \<and> i < length (label_map_of ''digit'')
         \<and> ''1'' = label_map_of ''digit'' ! i
         \<and> ''1'' \<in> set (label_map_of ''digit'')
         \<and> p0 ! i = Max (set p0)
         \<and> 0.75 = Max (set p0)
         \<and> interpret_sign sample_env (load_models sample_keras) sample_request =
             Response
               (JObj [(''text'', JStr ''1''), (''confidence'', JNum 0.75),
                      (''model'', JStr ''digit'')])
               200"
    by simp
  from sample_read_image sample_digit_wide 1 2 sample_asl_candidate 0 r 3
  show ?thesis by blast
qed

section \<open>Preprocessing\<close>





text \<open>The pixel 128 becomes the single-precision number next to 128/255, not 128/255.\<close>

lemma float32_of_pixel_128: "float32 (128 / 255) = 8421505 / 16777216"
  by (simp add: float32_def round_half_even_def eval_nat_numeral)



lemma set_nd_expand_last: "set_nd (np_expand_dims_last a) = set_nd a"
  by (induction a) auto






section \<open>The data-URL prefix\<close>

lemma str_contains_subset: "str_contains sub s \<Longrightarrow> set sub \<subseteq> set s"
proof (induction s)
  case Nil
  then show ?case by simp
next
  case (Cons c cs)
  then show ?case using set_mono_prefix [of sub "c # cs"] by auto
qed

lemma str_contains_append: "str_contains sub (q @ sub @ p)"
proof (induction q)
  case Nil
  show ?case
  proof (cases "sub @ p")
    case Nil
    then show ?thesis by simp
  next
    case (Cons a list)
    have "prefix sub (sub @ p)" by simp
    then show ?thesis unfolding Cons by simp
  qed
next
  case (Cons c q)
  then show ?case by simp
qed

lemma py_split_from_no_sep:
  "\<not> str_contains sep s \<Longrightarrow> py_split_from sep cur s = [cur @ s]"
proof (induction s arbitrary: cur)
  case Nil
  show ?case by (subst py_split_from.simps) simp
next
  case (Cons c cs)
  from Cons.prems have np: "\<not> prefix sep (c # cs)" and nc: "\<not> str_contains sep cs"
    by simp_all
  have "py_split_from sep cur (c # cs) = py_split_from sep (cur @ [c]) cs"
    using np by (subst py_split_from.simps) simp
  also have "\<dots> = [(cur @ [c]) @ cs]" by (rule Cons.IH [OF nc])
  finally show ?case by simp
qed

lemma py_split_from_first:
  assumes "sep \<noteq> []"
  shows "\<not> str_contains sep (q @ butlast sep) \<Longrightarrow>
     py_split_from sep cur (q @ sep @ p) = (cur @ q) # py_split_from sep [] p"
proof (induction q arbitrary: cur)
  case Nil
  have "sep @ p \<noteq> []" using assms by simp
  then show ?case using assms by (subst py_split_from.simps) simp
next
  case (Cons c q)
  from Cons.prems have np: "\<not> prefix sep (c # q @ butlast sep)"
    and nc: "\<not> str_contains sep (q @ butlast sep)"
    by simp_all
  have whole: "c # q @ sep @ p = (c # q @ butlast sep) @ (last sep # p)"
    using assms by simp
  have "\<not> prefix sep (c # q @ sep @ p)"
  proof
    assume a: "prefix sep (c # q @ sep @ p)"
    have b: "prefix (c # q @ butlast sep) (c # q @ sep @ p)"
      unfolding whole by (rule prefixI) simp
    have "length sep \<le> length (c # q @ butlast sep)" using assms by (cases sep) auto
    from prefix_length_prefix [OF a b this] np show False by simp
  qed
  then have "py_split_from sep cur (c # q @ sep @ p) = py_split_from sep (cur @ [c]) (q @ sep @ p)"
    by (subst py_split_from.simps) simp
  also have "\<dots> = ((cur @ [c]) @ q) # py_split_from sep [] p" by (rule Cons.IH [OF nc])
  finally show ?case by simp
qed

lemma bare_payload:
  assumes "set payload \<subseteq> set base64_alphabet"
  shows "\<not> str_contains ''base64,'' payload"
proof
  assume "str_contains ''base64,'' payload"
  from str_contains_subset [OF this] assms have "CHR '','' \<in> set base64_alphabet" by auto
  then show False by (simp add: base64_alphabet_def)
qed

lemma image_payload_bare:
  "\<not> str_contains ''base64,'' payload \<Longrightarrow> image_payload (JStr payload) = Inr payload"
  by simp

lemma image_payload_prefixed:
  assumes "\<not> str_contains ''base64,'' payload" and "data_url_prefix pre"
  shows "image_payload (JStr (pre @ payload)) = Inr payload"
proof -
  from assms(2) obtain q where pre: "pre = q @ ''base64,''"
    unfolding data_url_prefix_def suffix_def by blast
  with assms(2) have first: "\<not> str_contains ''base64,'' (q @ butlast ''base64,'')"
    by (simp add: data_url_prefix_def butlast_append)
  have "py_split_from ''base64,'' [] (q @ ''base64,'' @ payload) =
          ([] @ q) # py_split_from ''base64,'' [] payload"
    by (rule py_split_from_first [OF _ first]) simp
  also have "py_split_from ''base64,'' [] payload = [[] @ payload]"
    by (rule py_split_from_no_sep [OF assms(1)])
  finally have parts: "py_split (pre @ payload) ''base64,'' = Inr [q, payload]"
    by (simp add: py_split_def pre)
  have "str_contains ''base64,'' (pre @ payload)"
    unfolding pre using str_contains_append [of "''base64,''" q payload] by simp
  with parts show ?thesis by simp
qed

text \<open>
  Claim C7. For a base64 text and a data-URL header, lines 93 and 94 give the base64 text
  itself, with the header in front as without it. So the request with the header and the
  request without it give the decoder the same string, the bare text; they end the reading
  of the image in the same way, with the bytes of the bare text when it decodes; and they
  get the same response.
\<close>

theorem data_url_prefix_is_stripped:
  assumes "set payload \<subseteq> set base64_alphabet"
    and "data_url_prefix pre"
  shows "image_payload (JStr (pre @ payload)) = Inr payload
       \<and> image_payload (JStr payload) = Inr payload
       \<and> read_image lib (Inr (JObj ((''image'', JStr (pre @ payload)) # others))) =
           (case b64decode lib payload of
              Inl e \<Rightarrow> Inl (Inl e)
            | Inr image_bytes \<Rightarrow> Inr image_bytes)
       \<and> read_image lib (Inr (JObj ((''image'', JStr (pre @ payload)) # others))) =
           read_image lib (Inr (JObj ((''image'', JStr payload) # others)))
       \<and> interpret_sign lib models (Inr (JObj ((''image'', JStr (pre @ payload)) # others))) =
           interpret_sign lib models (Inr (JObj ((''image'', JStr payload) # others)))"
proof -
  have bare: "\<not> str_contains ''base64,'' payload"
    using assms(1) by (rule bare_payload)
  have 1: "image_payload (JStr (pre @ payload)) = Inr payload"
    using bare assms(2) by (rule image_payload_prefixed)
  have 2: "image_payload (JStr payload) = Inr payload"
    using bare by (rule image_payload_bare)
  have 0: "read_image lib (Inr (JObj ((''image'', JStr (pre @ payload)) # others))) =
           (case b64decode lib payload of
              Inl e \<Rightarrow> Inl (Inl e)
            | Inr image_bytes \<Rightarrow> Inr image_bytes)"
    by (simp add: read_image_def 1 del: image_payload.simps)
  have 3: "read_image lib (Inr (JObj ((''image'', JStr (pre @ payload)) # others))) =
           read_image lib (Inr (JObj ((''image'', JStr payload) # others)))"
    by (simp add: read_image_def 1 2 del: image_payload.simps)
  then have 4: "interpret_sign lib models (Inr (JObj ((''image'', JStr (pre @ payload)) # others))) =
           interpret_sign lib models (Inr (JObj ((''image'', JStr payload) # others)))"
    by (simp add: interpret_sign_def interpret_sign_try_def)
  from 1 2 0 3 4 show ?thesis by blast
qed

theorem data_url_prefix_is_stripped_witness:
  "set sample_payload \<subseteq> set base64_alphabet
   \<and> data_url_prefix ''data:image/png;base64,''
   \<and> image_payload (JStr (''data:image/png;base64,'' @ sample_payload)) = Inr sample_payload
   \<and> image_payload (JStr sample_payload) = Inr sample_payload
   \<and> read_image sample_env
         (Inr (JObj ((''image'', JStr (''data:image/png;base64,'' @ sample_payload)) # []))) =
       read_image sample_env (Inr (JObj ((''image'', JStr sample_payload) # [])))
   \<and> interpret_sign sample_env (load_models sample_keras)
         (Inr (JObj ((''image'', JStr (''data:image/png;base64,'' @ sample_payload)) # []))) =
       interpret_sign sample_env (load_models sample_keras)
         (Inr (JObj ((''image'', JStr sample_payload) # [])))
   \<and> read_image sample_env
         (Inr (JObj ((''image'', JStr (''data:image/png;base64,'' @ sample_payload)) # []))) =
       Inr sample_bytes"
proof -
  have a: "set sample_payload \<subseteq> set base64_alphabet"
    by (simp add: sample_payload_def base64_alphabet_def)
  have p: "data_url_prefix ''data:image/png;base64,''"
    by (simp add: data_url_prefix_def suffix_def)
  note T = data_url_prefix_is_stripped [OF a p, where lib = sample_env
      and models = "load_models sample_keras" and others = "[]"]
  have bare: "read_image sample_env (Inr (JObj ((''image'', JStr sample_payload) # []))) =
       Inr sample_bytes"
    using sample_read_image by (simp add: sample_request_def)
  from T
  have 1: "image_payload (JStr (''data:image/png;base64,'' @ sample_payload)) = Inr sample_payload"
    and 2: "image_payload (JStr sample_payload) = Inr sample_payload"
    and 3: "read_image sample_env
         (Inr (JObj ((''image'', JStr (''data:image/png;base64,'' @ sample_payload)) # []))) =
       read_image sample_env (Inr (JObj ((''image'', JStr sample_payload) # [])))"
    and 4: "interpret_sign sample_env (load_models sample_keras)
         (Inr (JObj ((''image'', JStr (''data:image/png;base64,'' @ sample_payload)) # []))) =
       interpret_sign sample_env (load_models sample_keras)
         (Inr (JObj ((''image'', JStr sample_payload) # [])))"
    by blast+
  from 3 bare
  have 5: "read_image sample_env
         (Inr (JObj ((''image'', JStr (''data:image/png;base64,'' @ sample_payload)) # []))) =
       Inr sample_bytes"
    by (simp only:)
  from a p 1 2 3 4 5 show ?thesis by blast
qed

section \<open>Malformed requests\<close>





section \<open>The temporary audio file\<close>

lemma speak_other_files:
  "name \<noteq> temp_filename \<Longrightarrow> snd (speak lib tts fs) name = fs name"
  by (auto simp: speak_def tts_save_def Let_def split: sum.splits option.splits)

lemma text_to_speech_try_other_files:
  "name \<noteq> temp_filename \<Longrightarrow> snd (text_to_speech_try lib fs request_json) name = fs name"
  by (auto simp: text_to_speech_try_def Let_def speak_other_files split: sum.splits)

lemma text_to_speech_other_files:
  "name \<noteq> temp_filename \<Longrightarrow> snd (text_to_speech_endpoint lib fs request_json) name = fs name"
  using text_to_speech_try_other_files [of name lib fs request_json]
  by (cases "text_to_speech_try lib fs request_json")
    (auto simp: text_to_speech_endpoint_def split: sum.splits)

lemma speak_success:
  assumes "fetch_audio lib tts = Inr audio" and "file_read lib audio = Inr content"
  shows "speak lib tts fs =
     (Inr (Response
             (JObj [(''audio'', JStr (''data:audio/mpeg;base64,'' @ b64encode lib content))])
             200),
      fs(temp_filename := None))"
  using assms by (simp add: speak_def tts_save_def)

lemma speak_read_error:
  assumes "fetch_audio lib tts = Inr audio" and "file_read lib audio = Inl e"
  shows "speak lib tts fs = (Inl e, fs(temp_filename \<mapsto> audio))"
  using assms by (simp add: speak_def tts_save_def)

lemma text_to_speech_try_speak:
  assumes "map_of kvs ''text'' = Some words" and "map_of kvs ''language'' = Some language"
    and "base_language language = Inr lang" and "gTTS lib words lang = Inr tts"
  shows "text_to_speech_try lib fs (Inr (JObj kvs)) = speak lib tts fs"
proof -
  from assms(1,2) have "(''text'', words) \<in> set kvs" "(''language'', language) \<in> set kvs"
    by (auto dest: map_of_SomeD)
  then have "''text'' \<in> set (map fst kvs)" "''language'' \<in> set (map fst kvs)" "kvs \<noteq> []"
    by force+
  with assms show ?thesis by (simp add: text_to_speech_try_def)
qed

text \<open>
  Claim C9, as the code has it. The handler touches one file only, whose name is the
  literal \<^verbatim>\<open>temp_audio.mp3\<close>, the same for every call: whatever the request and however the
  handler is left, every file of another name is as it was. When the request carries a text
  and a language, synthesis succeeds and the file is read back, the handler answers with
  the audio as a data URL, status 200, and the file is removed.
\<close>

theorem temp_file_has_fixed_name:
  shows "(\<forall>name. name \<noteq> temp_filename \<longrightarrow>
            snd (text_to_speech_endpoint lib fs request_json) name = fs name)
       \<and> temp_filename = ''temp_audio.mp3''
       \<and> (map_of kvs ''text'' = Some words \<and> map_of kvs ''language'' = Some language
            \<and> base_language language = Inr lang \<and> gTTS lib words lang = Inr tts
            \<and> fetch_audio lib tts = Inr audio \<and> file_read lib audio = Inr content \<longrightarrow>
          text_to_speech_endpoint lib fs (Inr (JObj kvs)) =
            (Response
               (JObj [(''audio'', JStr (''data:audio/mpeg;base64,'' @ b64encode lib content))])
               200,
             fs(temp_filename := None)))"
proof (intro conjI impI allI)
  fix name :: string
  assume "name \<noteq> temp_filename"
  then show "snd (text_to_speech_endpoint lib fs request_json) name = fs name"
    by (rule text_to_speech_other_files)
next
  show "temp_filename = ''temp_audio.mp3''" by (simp add: temp_filename_def)
next
  assume h: "map_of kvs ''text'' = Some words \<and> map_of kvs ''language'' = Some language
            \<and> base_language language = Inr lang \<and> gTTS lib words lang = Inr tts
            \<and> fetch_audio lib tts = Inr audio \<and> file_read lib audio = Inr content"
  then have "text_to_speech_try lib fs (Inr (JObj kvs)) = speak lib tts fs"
    by (intro text_to_speech_try_speak [where words = words and language = language
          and lang = lang]) simp_all
  also have "\<dots> = (Inr (Response
             (JObj [(''audio'', JStr (''data:audio/mpeg;base64,'' @ b64encode lib content))])
             200),
      fs(temp_filename := None))"
    using h by (intro speak_success [where audio = audio]) simp_all
  finally show "text_to_speech_endpoint lib fs (Inr (JObj kvs)) =
            (Response
               (JObj [(''audio'', JStr (''data:audio/mpeg;base64,'' @ b64encode lib content))])
               200,
             fs(temp_filename := None))"
    by (simp add: text_to_speech_endpoint_def)
qed

theorem temp_file_has_fixed_name_witness:
  "map_of [(''text'', JStr ''hello''), (''language'', JStr ''en-US'')] ''text'' =
     Some (JStr ''hello'')
   \<and> map_of [(''text'', JStr ''hello''), (''language'', JStr ''en-US'')] ''language'' =
       Some (JStr ''en-US'')
   \<and> base_language (JStr ''en-US'') = Inr (JStr ''en'')
   \<and> gTTS sample_speech (JStr ''hello'') (JStr ''en'') = Inr ()
   \<and> fetch_audio sample_speech () = Inr [73, 68, 51]
   \<and> file_read sample_speech [73, 68, 51] = Inr [73, 68, 51]
   \<and> text_to_speech_endpoint sample_speech Map.empty speech_request =
       (Response (JObj [(''audio'', JStr ''data:audio/mpeg;base64,SUQz'')]) 200, Map.empty)
   \<and> ''notes.words'' \<noteq> temp_filename
   \<and> snd (text_to_speech_endpoint sample_speech [''notes.words'' \<mapsto> [1, 2]] speech_request)
         ''notes.words'' = Some [1, 2]"
proof -
  have 1: "map_of [(''text'', JStr ''hello''), (''language'', JStr ''en-US'')] ''text'' =
     Some (JStr ''hello'')"
    and 2: "map_of [(''text'', JStr ''hello''), (''language'', JStr ''en-US'')] ''language'' =
       Some (JStr ''en-US'')"
    and 4: "gTTS sample_speech (JStr ''hello'') (JStr ''en'') = Inr ()"
    and 5: "fetch_audio sample_speech () = Inr [73, 68, 51]"
    and 6: "file_read sample_speech [73, 68, 51] = Inr [73, 68, 51]"
    and 7: "''notes.words'' \<noteq> temp_filename"
    by (simp_all add: sample_speech_def temp_filename_def)
  have "py_split_from ''-'' [] (''en'' @ ''-'' @ ''US'') = ([] @ ''en'') # py_split_from ''-'' [] ''US''"
    by (rule py_split_from_first) simp_all
  also have "py_split_from ''-'' [] ''US'' = [[] @ ''US'']"
    by (rule py_split_from_no_sep) simp
  finally have 3: "base_language (JStr ''en-US'') = Inr (JStr ''en'')"
    by (simp add: py_split_def)
  note T = temp_file_has_fixed_name [where lib = sample_speech
      and kvs = "[(''text'', JStr ''hello''), (''language'', JStr ''en-US'')]"
      and words = "JStr ''hello''" and language = "JStr ''en-US''" and lang = "JStr ''en''"
      and tts = "()" and audio = "[73, 68, 51]" and content = "[73, 68, 51]"]
  from T [where fs = Map.empty] 1 2 3 4 5 6
  have a: "text_to_speech_endpoint sample_speech Map.empty speech_request =
       (Response (JObj [(''audio'', JStr ''data:audio/mpeg;base64,SUQz'')]) 200, Map.empty)"
    by (simp add: speech_request_def sample_speech_def)
  from T [where fs = "[''notes.words'' \<mapsto> [1, 2]]" and request_json = speech_request] 7
  have b: "snd (text_to_speech_endpoint sample_speech [''notes.words'' \<mapsto> [1, 2]] speech_request)
         ''notes.words'' = Some [1, 2]"
    by simp
  from 1 2 3 4 5 6 a 7 b show ?thesis by blast
qed

text \<open>
  When reading the file back raises, the handler answers with status 500 and the file
  stays on the disk; and two different requests leave a file of the same name.
\<close>

theorem temp_file_left_behind:
  "text_to_speech_endpoint unreadable_disk Map.empty speech_request =
     (Response
        (JObj [(''error'', JStr ''Internal server error processing text-to-speech'')]) 500,
      [''temp_audio.mp3'' \<mapsto> [73, 68, 51]])
   \<and> text_to_speech_endpoint unreadable_disk Map.empty other_speech_request =
     (Response
        (JObj [(''error'', JStr ''Internal server error processing text-to-speech'')]) 500,
      [''temp_audio.mp3'' \<mapsto> [73, 68, 51]])"
proof -
  have r: "fetch_audio unreadable_disk () = Inr [73, 68, 51]"
    "file_read unreadable_disk [73, 68, 51] = Inl OSError"
    by (simp_all add: unreadable_disk_def sample_speech_def)
  have s: "speak unreadable_disk () Map.empty = (Inl OSError, [temp_filename \<mapsto> [73, 68, 51]])"
    by (rule speak_read_error [OF r])
  have "py_split_from ''-'' [] (''en'' @ ''-'' @ ''US'') = ([] @ ''en'') # py_split_from ''-'' [] ''US''"
    by (rule py_split_from_first) simp_all
  also have "py_split_from ''-'' [] ''US'' = [[] @ ''US'']"
    by (rule py_split_from_no_sep) simp
  finally have l: "base_language (JStr ''en-US'') = Inr (JStr ''en'')"
    by (simp add: py_split_def)
  have 1: "text_to_speech_try unreadable_disk Map.empty speech_request =
      speak unreadable_disk () Map.empty"
    unfolding speech_request_def
    by (rule text_to_speech_try_speak [where words = "JStr ''hello''"
          and language = "JStr ''en-US''" and lang = "JStr ''en''"])
      (simp_all add: l unreadable_disk_def sample_speech_def del: base_language.simps)
  have 2: "text_to_speech_try unreadable_disk Map.empty other_speech_request =
      speak unreadable_disk () Map.empty"
    unfolding other_speech_request_def
    by (rule text_to_speech_try_speak [where words = "JStr ''bye''"
          and language = "JStr ''fr''" and lang = "JStr ''fr''"])
      (simp_all add: unreadable_disk_def sample_speech_def)
  from 1 2 s show ?thesis
    by (simp add: text_to_speech_endpoint_def temp_filename_def)
qed

end
